theory Spec2Isabelle
  imports Main "HOL-Library.Word" "HOL-Library.Sublist"
begin

section \<open>JavaScript strings and values\<close>

text \<open>
  A JavaScript string is a sequence of UTF-16 code units, and \<open>length\<close>, \<open>substring\<close>
  and \<open>startsWith\<close> count code units. Literals of the source that are plain ASCII are
  written \<open>ascii ''...''\<close>; the others are given by their code units.
\<close>

type_synonym jsstring = "16 word list"

definition ascii :: "string \<Rightarrow> jsstring" where
  "ascii s = map of_char s"

definition nl :: jsstring where
  "nl = [0x0A]"

text \<open>\<open>WhiteSpace\<close> and \<open>LineTerminator\<close> of ECMAScript: what \<open>trim\<close> strips.\<close>

definition is_js_space :: "16 word \<Rightarrow> bool" where
  "is_js_space c \<longleftrightarrow>
     c \<in> set [0x09, 0x0A, 0x0B, 0x0C, 0x0D, 0x20, 0xA0, 0x1680, 0x2028, 0x2029,
               0x202F, 0x205F, 0x3000, 0xFEFF] \<or> (0x2000 \<le> c \<and> c \<le> 0x200A)"

definition js_trim :: "jsstring \<Rightarrow> jsstring" where
  "js_trim s = rev (dropWhile is_js_space (rev (dropWhile is_js_space s)))"

text \<open>Decimal rendering of an integer: \<open>Number.prototype.toString\<close> on an integral value.\<close>

fun digits10 :: "nat \<Rightarrow> jsstring" where
  "digits10 n = (if n < 10 then [of_nat (48 + n)]
                 else digits10 (n div 10) @ [of_nat (48 + n mod 10)])"

declare digits10.simps [simp del]

definition Number_toString :: "int \<Rightarrow> jsstring" where
  "Number_toString i = (if i < 0 then 0x2D # digits10 (nat (- i)) else digits10 (nat i))"

text \<open>
  A run-time value: the JSON values and \<open>undefined\<close>. A JSON number is carried as its
  lexeme (the double it denotes is not modelled), which is also how it is rendered.
\<close>

datatype jsvalue =
    Undefined
  | JNull
  | JBool bool
  | JNum jsstring
  | JStr jsstring
  | JArr "jsvalue list"
  | JObj "(jsstring \<times> jsvalue) list"

fun join_comma :: "jsstring list \<Rightarrow> jsstring" where
  "join_comma [] = []"
| "join_comma [s] = s"
| "join_comma (s # t # ss) = s @ [0x2C] @ join_comma (t # ss)"

text \<open>\<open>ToString\<close>, as a template literal applies it to an interpolated value.\<close>

fun js_to_string :: "jsvalue \<Rightarrow> jsstring" where
  "js_to_string Undefined = ascii ''undefined''"
| "js_to_string JNull = ascii ''null''"
| "js_to_string (JBool b) = (if b then ascii ''true'' else ascii ''false'')"
| "js_to_string (JNum lexeme) = lexeme"
| "js_to_string (JStr s) = s"
| "js_to_string (JArr xs) =
     join_comma (map (\<lambda>x. if x = Undefined \<or> x = JNull then [] else js_to_string x) xs)"
| "js_to_string (JObj kv) = ascii ''[object Object]''"

section \<open>Todo items and the message formatter\<close>

datatype todoPattern = NUMBERED | BULLET | ACTION | CHECKBOX | AI_EXTRACTED

text \<open>
  \<open>TodoItem\<close> of \<open>email/types.ts\<close>. The declared type of \<open>description\<close> is \<open>string\<close> and
  that of \<open>priority\<close> a three-valued enum, but the Gemini parser casts unchecked JSON to it,
  so at run time each field holds whatever value the response carried. The timestamp
  \<open>extractedAt\<close> is never read again and is left out.
\<close>

record todoItem =
  description :: jsvalue
  priority :: jsvalue
  sourceEmailId :: jsstring
  sourceSender :: jsstring
  sourceSubject :: jsstring
  matchedPattern :: todoPattern

definition MAX_MESSAGE_LENGTH :: nat where
  "MAX_MESSAGE_LENGTH = 5000"

definition truncation_suffix :: jsstring where
  "truncation_suffix = nl @ nl @ ascii ''...(truncated)''"

definition separator :: jsstring where
  "separator = replicate 17 0x2500"

definition getPriorityIcon :: "jsvalue \<Rightarrow> jsstring" where
  "getPriorityIcon p =
     (if p = JStr (ascii ''high'') then [0xD83D, 0xDD34, 0x20]
      else if p = JStr (ascii ''medium'') then [0xD83D, 0xDFE1, 0x20]
      else if p = JStr (ascii ''low'') then [0xD83D, 0xDFE2, 0x20]
      else [])"

text \<open>The \<open>forEach\<close> of \<open>formatTodosForLine\<close>; \<open>index\<close> is the position of the first item.\<close>

fun todo_lines :: "nat \<Rightarrow> todoItem list \<Rightarrow> jsstring" where
  "todo_lines index [] = []"
| "todo_lines index (todo # todos) =
     Number_toString (int (index + 1)) @ ascii ''. '' @ getPriorityIcon (priority todo)
       @ js_to_string (description todo) @ nl @ todo_lines (index + 1) todos"

text \<open>The message \<open>formatTodosForLine\<close> has built when it reaches the length check.\<close>

definition rendered_message :: "todoItem list \<Rightarrow> jsstring \<Rightarrow> jsstring \<Rightarrow> jsstring" where
  "rendered_message todos sender subject =
     [0xD83D, 0xDCE7] @ ascii '' New Todos from Email'' @ nl @ nl
     @ ascii ''From: '' @ sender @ nl
     @ ascii ''Subject: '' @ subject @ nl
     @ nl @ separator @ nl @ nl
     @ todo_lines 0 todos
     @ nl @ separator @ nl
     @ ascii ''Total: '' @ Number_toString (int (length todos)) @ ascii '' todo''
     @ (if length todos > 1 then ascii ''s'' else [])"

definition formatTodosForLine :: "todoItem list \<Rightarrow> jsstring \<Rightarrow> jsstring \<Rightarrow> jsstring" where
  "formatTodosForLine todos sender subject =
     (if length todos = 0 then []
      else let message = rendered_message todos sender subject in
        if length message > MAX_MESSAGE_LENGTH
        then take (MAX_MESSAGE_LENGTH - 20) message @ truncation_suffix
        else message)"

section \<open>The environment\<close>

text \<open>
  Everything outside the program is one explicit \<open>world\<close> value, threaded through every
  operation that has an effect:
  \<^item> \<open>clock\<close> and \<open>ticks\<close>: the wall clock as the sequence of its successive readings
    (milliseconds); each \<open>new Date()\<close> that the control flow or a message uses takes the
    next one. Nothing is assumed about the readings unless a theorem says so.
  \<^item> \<open>props\<close>: the Script Properties store.
  \<^item> \<open>gmail\<close>, \<open>gemini_api\<close>, \<open>line_api\<close>: what the mailbox search and the two HTTP
    endpoints answer to their first, second, ... call; \<open>searches\<close> (query and \<open>max\<close>),
    \<open>gemini_requests\<close> (prompts) and \<open>line_requests\<close> record the calls made so far.
  \<^item> \<open>sleeps\<close>: the arguments of the \<open>Utilities.sleep\<close> calls made so far.
  \<^item> \<open>pushes\<close> and \<open>visited\<close>: the \<open>pushMessage\<close> and \<open>processEmail\<close> calls made so far
    (what the log lines ``Pushing message to LINE'' and ``Processing email'' record).
  \<^item> \<open>toLocaleString\<close>, \<open>toFixed2\<close>, \<open>formatDate\<close>, \<open>engine_message\<close>: the platform's
    renderings of a time stamp, of a millisecond difference as seconds with two decimals,
    of a date as \<open>yyyy/MM/dd\<close>, and the message text of an exception the engine itself
    raises; they are not interpreted.
  \<^item> \<open>regex_matches\<close>: the regular-expression engine on the four patterns of
    \<open>EmailParser\<close>: for a pattern and a text, the capture groups 1 and 2 of the successive
    matches of \<open>exec\<close>; not interpreted either.
  Log output has no effect on the run and is not modelled.
\<close>

datatype error = Error jsstring | SyntaxError | TypeError | RangeError

datatype http_reply = Raises jsstring | Responds nat jsstring

record gmailMessage =
  getId :: jsstring
  getFrom :: jsstring
  getSubject :: jsstring
  getPlainBody :: jsstring
  getBody :: jsstring
  getDate :: int

record gmailThread =
  thread_getId :: jsstring
  thread_getLabels :: "jsstring list"
  getMessages :: "gmailMessage list"

datatype gmail_reply = SearchRaises jsstring | SearchReturns "gmailThread list"

text \<open>\<open>EmailMessage\<close> of \<open>email/types.ts\<close>; \<open>senderName\<close> is always \<open>undefined\<close>.\<close>

record emailMessage =
  email_id :: jsstring
  email_threadId :: jsstring
  email_from :: jsstring
  email_subject :: jsstring
  bodyPlain :: jsstring
  bodyHtml :: jsstring
  receivedDate :: int
  processed :: bool
  labelIds :: "jsstring list"

record line_request =
  req_token :: jsstring
  req_to :: jsstring
  req_text :: jsstring

record world =
  clock :: "nat \<Rightarrow> int"
  ticks :: nat
  props :: "string \<rightharpoonup> jsstring"
  gmail :: "nat \<Rightarrow> gmail_reply"
  searches :: "(jsstring \<times> int option) list"
  gemini_api :: "nat \<Rightarrow> http_reply"
  gemini_requests :: "jsstring list"
  line_api :: "nat \<Rightarrow> http_reply"
  line_requests :: "line_request list"
  sleeps :: "nat list"
  pushes :: "(jsstring \<times> jsstring) list"
  visited :: "emailMessage list"
  toLocaleString :: "int \<Rightarrow> jsstring"
  toFixed2 :: "int \<Rightarrow> jsstring"
  formatDate :: "int \<Rightarrow> jsstring"
  engine_message :: "error \<Rightarrow> jsstring"
  regex_matches :: "todoPattern \<Rightarrow> jsstring \<Rightarrow> (jsstring option \<times> jsstring option) list"

text \<open>A quiet environment, the starting point of the concrete scenarios below.\<close>

definition idle_world :: world where
  "idle_world =
     \<lparr>clock = (\<lambda>n. int n), ticks = 0, props = Map.empty,
      gmail = (\<lambda>n. SearchReturns []), searches = [],
      gemini_api = (\<lambda>n. Responds 200 []), gemini_requests = [],
      line_api = (\<lambda>n. Responds 200 (ascii ''{}'')), line_requests = [],
      sleeps = [], pushes = [], visited = [],
      toLocaleString = (\<lambda>t. Number_toString t), toFixed2 = (\<lambda>ms. Number_toString ms),
      formatDate = (\<lambda>t. Number_toString t), engine_message = (\<lambda>e. ascii ''error''),
      regex_matches = (\<lambda>p s. [])\<rparr>"

definition Date_now :: "world \<Rightarrow> int \<times> world" where
  "Date_now w = (clock w (ticks w), w\<lparr>ticks := Suc (ticks w)\<rparr>)"

definition Utilities_sleep :: "nat \<Rightarrow> world \<Rightarrow> world" where
  "Utilities_sleep ms w = w\<lparr>sleeps := sleeps w @ [ms]\<rparr>"

section \<open>LineService\<close>

text \<open>
  \<open>LineApiResponse\<close>. The parsed \<open>error\<close> object is only ever logged, so the model keeps
  whether the field is present and not its content.
\<close>

record lineApiResponse =
  status :: nat
  body :: jsstring
  has_error :: bool

text \<open>
  \<open>UrlFetchApp.fetch\<close> on the push endpoint with \<open>muteHttpExceptions: true\<close>: an HTTP
  error status is returned as a response; only a transport failure raises.
\<close>

definition UrlFetchApp_fetch_line ::
  "line_request \<Rightarrow> world \<Rightarrow> (error + nat \<times> jsstring) \<times> world" where
  "UrlFetchApp_fetch_line req w =
     (let w' = w\<lparr>line_requests := line_requests w @ [req]\<rparr> in
      case line_api w (length (line_requests w)) of
        Raises m \<Rightarrow> (Inl (Error m), w')
      | Responds statusCode responseBody \<Rightarrow> (Inr (statusCode, responseBody), w'))"

definition buildErrorResponse :: "nat \<Rightarrow> jsstring \<Rightarrow> lineApiResponse" where
  "buildErrorResponse statusCode responseBody =
     \<lparr>status = statusCode, body = responseBody, has_error = True\<rparr>"

definition handleLineResponse :: "nat \<Rightarrow> jsstring \<Rightarrow> lineApiResponse" where
  "handleLineResponse statusCode responseBody =
     (if statusCode = 200
      then \<lparr>status = statusCode, body = responseBody, has_error = False\<rparr>
      else buildErrorResponse statusCode responseBody)"

definition sendToLineApi ::
  "jsstring \<Rightarrow> jsstring \<Rightarrow> jsstring \<Rightarrow> world \<Rightarrow> (error + lineApiResponse) \<times> world" where
  "sendToLineApi accessToken groupId text w =
     (case UrlFetchApp_fetch_line \<lparr>req_token = accessToken, req_to = groupId, req_text = text\<rparr> w of
        (Inl e, w') \<Rightarrow> (Inl e, w')
      | (Inr (statusCode, responseBody), w') \<Rightarrow>
          (Inr (handleLineResponse statusCode responseBody), w'))"

text \<open>
  The \<open>for\<close> loop of \<open>withRetry\<close>, from the iteration with counter \<open>attempt\<close> on: a normal
  return of \<open>fn\<close> leaves the loop with its value, whatever that value is; an exception is
  kept in \<open>lastError\<close> and followed by a sleep of \<open>2 ^ attempt\<close> seconds unless it was the
  last attempt. After the loop the last exception is thrown.
\<close>

function withRetry_loop ::
  "(world \<Rightarrow> (error + 'a) \<times> world) \<Rightarrow> nat \<Rightarrow> nat \<Rightarrow> error option \<Rightarrow> world
     \<Rightarrow> (error + 'a) \<times> world" where
  "withRetry_loop fn maxRetries attempt lastError w =
     (if attempt \<le> maxRetries then
        (case fn w of
           (Inr v, w') \<Rightarrow> (Inr v, w')
         | (Inl e, w') \<Rightarrow>
             (if attempt < maxRetries
              then withRetry_loop fn maxRetries (Suc attempt) (Some e)
                     (Utilities_sleep (2 ^ attempt * 1000) w')
              else withRetry_loop fn maxRetries (Suc attempt) (Some e) w'))
      else
        (Inl (case lastError of
                Some e \<Rightarrow> e
              | None \<Rightarrow> Error (ascii ''Retry failed with unknown error'')), w))"
  by pat_completeness auto
termination
  by (relation "measure (\<lambda>(fn, maxRetries, attempt, lastError, w). Suc maxRetries - attempt)") auto

declare withRetry_loop.simps [simp del]

definition withRetry ::
  "(world \<Rightarrow> (error + 'a) \<times> world) \<Rightarrow> nat \<Rightarrow> world \<Rightarrow> (error + 'a) \<times> world" where
  "withRetry fn maxRetries w = withRetry_loop fn maxRetries 0 None w"

definition pushMessage ::
  "jsstring \<Rightarrow> jsstring \<Rightarrow> jsstring \<Rightarrow> world \<Rightarrow> (error + lineApiResponse) \<times> world" where
  "pushMessage accessToken groupId text w =
     withRetry (sendToLineApi accessToken groupId text) 3
       (w\<lparr>pushes := pushes w @ [(groupId, text)]\<rparr>)"

section \<open>ConfigService\<close>

text \<open>
  The key-value \<open>ConfigService\<close>: each setting is one Script Property. \<open>parseInt(s, 10)\<close>
  skips leading white space, reads an optional sign and the longest run of decimal digits,
  and yields \<open>NaN\<close> (\<open>None\<close>) when there is no digit. The result is exact here; the
  platform's is a double, which agrees for every value a \<open>Date\<close> can hold.
\<close>

definition is_digit :: "16 word \<Rightarrow> bool" where
  "is_digit c \<longleftrightarrow> 0x30 \<le> c \<and> c \<le> 0x39"

definition digit_value :: "16 word \<Rightarrow> nat" where
  "digit_value c = unat c - 48"

definition parseInt :: "jsstring \<Rightarrow> int option" where
  "parseInt s =
     (let s1 = dropWhile is_js_space s;
          negative = (s1 \<noteq> [] \<and> hd s1 = 0x2D);
          s2 = (if s1 \<noteq> [] \<and> (hd s1 = 0x2D \<or> hd s1 = 0x2B) then tl s1 else s1);
          ds = takeWhile is_digit s2
      in if ds = [] then None
         else let n = foldl (\<lambda>a c. 10 * a + digit_value c) 0 ds
              in Some (if negative then - int n else int n))"

record appConfig =
  lineAccessToken :: jsstring
  lineGroupId :: jsstring
  geminiApiKey :: jsstring
  senderWhitelist :: "jsstring list"
  lastProcessedTime :: int
  maxEmailsPerRun :: "int option"

text \<open>\<open>String.prototype.split\<close> on a one-unit separator.\<close>

fun split_on :: "16 word \<Rightarrow> jsstring \<Rightarrow> jsstring list" where
  "split_on sep [] = [[]]"
| "split_on sep (c # cs) =
     (if c = sep then [] # split_on sep cs
      else (case split_on sep cs of
              [] \<Rightarrow> [[c]]
            | piece # pieces \<Rightarrow> (c # piece) # pieces))"

text \<open>\<open>!value\<close> for what \<open>getProperty\<close> returns: \<open>null\<close> or the empty string.\<close>

definition missing :: "jsstring option \<Rightarrow> bool" where
  "missing v \<longleftrightarrow> v = None \<or> v = Some []"

definition not_found :: "string \<Rightarrow> error" where
  "not_found key =
     Error (ascii ''Configuration error: '' @ ascii key @ ascii '' not found in Script Properties'')"

text \<open>
  \<open>getConfig\<close>. Its last log line renders \<open>new Date(lastProcessedTime).toISOString()\<close>,
  which throws a \<open>RangeError\<close> when the stored text is not a number or is outside the
  range of \<open>Date\<close> (8.64e15 ms either side of the epoch); that is the last check below.
\<close>

definition getConfig :: "world \<Rightarrow> error + appConfig" where
  "getConfig w =
     (let lineAccessToken = props w ''lineAccessToken'';
          lineGroupId = props w ''lineGroupId'';
          geminiApiKey = props w ''geminiApiKey'';
          senderWhitelistStr = props w ''senderWhitelist'';
          lastProcessedTimeStr = props w ''lastProcessedTime'';
          maxEmailsPerRunStr = props w ''maxEmailsPerRun''
      in if missing lineAccessToken then Inl (not_found ''lineAccessToken'')
         else if missing lineGroupId then Inl (not_found ''lineGroupId'')
         else if missing geminiApiKey then Inl (not_found ''geminiApiKey'')
         else if missing senderWhitelistStr then Inl (not_found ''senderWhitelist'')
         else
           let senderWhitelist =
                 filter (\<lambda>s. length s > 0) (map js_trim (split_on 0x2C (the senderWhitelistStr)))
           in if length senderWhitelist = 0
              then Inl (Error (ascii ''Configuration error: senderWhitelist cannot be empty''))
              else
                let lastProcessedTime =
                      (if missing lastProcessedTimeStr then Some 0
                       else parseInt (the lastProcessedTimeStr));
                    maxEmailsPerRun =
                      (if missing maxEmailsPerRunStr then Some 100
                       else parseInt (the maxEmailsPerRunStr))
                in (case lastProcessedTime of
                      None \<Rightarrow> Inl RangeError
                    | Some t \<Rightarrow>
                        if \<bar>t\<bar> > 8640000000000000 then Inl RangeError
                        else Inr \<lparr>lineAccessToken = the lineAccessToken,
                                  lineGroupId = the lineGroupId,
                                  geminiApiKey = the geminiApiKey,
                                  senderWhitelist = senderWhitelist,
                                  lastProcessedTime = t,
                                  maxEmailsPerRun = maxEmailsPerRun\<rparr>))"

definition updateLastProcessedTime :: "int \<Rightarrow> world \<Rightarrow> world" where
  "updateLastProcessedTime timestamp w =
     w\<lparr>props := (props w)(''lastProcessedTime'' \<mapsto> Number_toString timestamp)\<rparr>"

section \<open>EmailService\<close>

text \<open>
  \<open>GmailApp.search(query, 0, max)\<close>: the mailbox decides which threads match and in which
  order; the platform returns at most \<open>max\<close> of them. A \<open>max\<close> that is not a number is
  taken to be refused.
\<close>

definition GmailApp_search ::
  "jsstring \<Rightarrow> int option \<Rightarrow> world \<Rightarrow> (error + gmailThread list) \<times> world" where
  "GmailApp_search query maxThreads w =
     (let w' = w\<lparr>searches := searches w @ [(query, maxThreads)]\<rparr> in
      case gmail w (length (searches w)) of
        SearchRaises m \<Rightarrow> (Inl (Error m), w')
      | SearchReturns threads \<Rightarrow>
          (case maxThreads of
             None \<Rightarrow> (Inl (Error (ascii ''Invalid argument: max'')), w')
           | Some n \<Rightarrow> (Inr (take (nat n) threads), w')))"

definition toEmailMessage :: "gmailThread \<Rightarrow> gmailMessage \<Rightarrow> emailMessage" where
  "toEmailMessage thread message =
     \<lparr>email_id = getId message, email_threadId = thread_getId thread,
      email_from = getFrom message, email_subject = getSubject message,
      bodyPlain = getPlainBody message, bodyHtml = getBody message,
      receivedDate = getDate message, processed = False,
      labelIds = thread_getLabels thread\<rparr>"

text \<open>
  The two nested \<open>for\<close> loops of \<open>fetchNewEmails\<close>, which push onto \<open>emails\<close>. Here and
  below \<open>since\<close>, \<open>whitelist\<close> and \<open>maxThreads\<close> stand for the parameters
  \<open>lastProcessedTime\<close>, \<open>senderWhitelist\<close> and \<open>maxEmailsPerRun\<close> of the source, whose names
  are taken by the fields of \<open>AppConfig\<close>.
\<close>

definition collect_emails :: "int \<Rightarrow> gmailThread list \<Rightarrow> emailMessage list" where
  "collect_emails since threads =
     concat (map (\<lambda>thread.
       map (toEmailMessage thread)
         (filter (\<lambda>message. \<not> getDate message \<le> since) (getMessages thread)))
       threads)"

fun join_with :: "jsstring \<Rightarrow> jsstring list \<Rightarrow> jsstring" where
  "join_with sep [] = []"
| "join_with sep [s] = s"
| "join_with sep (s # t # ss) = s @ sep @ join_with sep (t # ss)"

text \<open>
  \<open>fetchNewEmails(lastProcessedTime, senderWhitelist)\<close>: the sender filter is part of the
  query, which \<open>sender_query\<close> builds.
\<close>

definition sender_query :: "world \<Rightarrow> int \<Rightarrow> jsstring list \<Rightarrow> jsstring" where
  "sender_query w since whitelist =
     (let queryDate = formatDate w since;
          senderQuery = join_with (ascii '' OR '') (map (\<lambda>sender. ascii ''from:'' @ sender) whitelist)
      in ascii ''('' @ senderQuery @ ascii '') after:'' @ queryDate @ ascii '' in:inbox'')"

definition fetchNewEmails ::
  "int option \<Rightarrow> int \<Rightarrow> jsstring list \<Rightarrow> world \<Rightarrow> (error + emailMessage list) \<times> world" where
  "fetchNewEmails maxThreads since whitelist w =
     (case GmailApp_search (sender_query w since whitelist) maxThreads w of
        (Inl e, w') \<Rightarrow> (Inl e, w')
      | (Inr threads, w') \<Rightarrow> (Inr (collect_emails since threads), w'))"

text \<open>
  The older \<open>EmailService\<close> of \<open>email/EmailService.ts\<close>, which \<open>main.ts\<close> uses:
  \<open>fetchNewEmails(lastProcessedTime)\<close> searches the whole inbox and \<open>filterBySender\<close> keeps
  the whitelisted senders.
\<close>

definition inbox_query :: "world \<Rightarrow> int \<Rightarrow> jsstring" where
  "inbox_query w since =
     (let queryDate = formatDate w since
      in ascii ''after:'' @ queryDate @ ascii '' in:inbox'')"

definition fetchNewEmails_inbox ::
  "int option \<Rightarrow> int \<Rightarrow> world \<Rightarrow> (error + emailMessage list) \<times> world" where
  "fetchNewEmails_inbox maxThreads since w =
     (case GmailApp_search (inbox_query w since) maxThreads w of
        (Inl e, w') \<Rightarrow> (Inl e, w')
      | (Inr threads, w') \<Rightarrow> (Inr (collect_emails since threads), w'))"

text \<open>The first match of \<open>/<([^>]+)>/\<close>: its capture group.\<close>

fun angle_match :: "jsstring \<Rightarrow> jsstring option" where
  "angle_match [] = None"
| "angle_match (c # cs) =
     (if c = 0x3C \<and> takeWhile (\<lambda>x. x \<noteq> 0x3E) cs \<noteq> [] \<and> dropWhile (\<lambda>x. x \<noteq> 0x3E) cs \<noteq> []
      then Some (takeWhile (\<lambda>x. x \<noteq> 0x3E) cs)
      else angle_match cs)"

text \<open>\<open>toLowerCase\<close> on the ASCII letters; other code units are left as they are.\<close>

definition toLowerCase :: "jsstring \<Rightarrow> jsstring" where
  "toLowerCase s = map (\<lambda>c. if 0x41 \<le> c \<and> c \<le> 0x5A then c + 0x20 else c) s"

definition filterBySender :: "emailMessage list \<Rightarrow> jsstring list \<Rightarrow> emailMessage list" where
  "filterBySender emails whitelist =
     filter (\<lambda>email.
       let senderEmail = (case angle_match (email_from email) of
                            Some address \<Rightarrow> address
                          | None \<Rightarrow> email_from email)
       in list_ex (\<lambda>whitelisted. toLowerCase whitelisted = toLowerCase senderEmail) whitelist)
     emails"

section \<open>JSON.parse\<close>

text \<open>
  A reference reading of the JSON grammar (ECMA-404), as \<open>JSON.parse\<close> applies it: \<open>None\<close>
  is the \<open>SyntaxError\<close>. The descent carries fuel for its nesting; every level of it
  consumes input, so twice the length of the text is enough.
\<close>

definition is_json_ws :: "16 word \<Rightarrow> bool" where
  "is_json_ws c \<longleftrightarrow> c = 0x20 \<or> c = 0x09 \<or> c = 0x0A \<or> c = 0x0D"

definition skip_ws :: "jsstring \<Rightarrow> jsstring" where
  "skip_ws s = dropWhile is_json_ws s"

definition hex_value :: "16 word \<Rightarrow> nat option" where
  "hex_value c =
     (if 0x30 \<le> c \<and> c \<le> 0x39 then Some (unat c - 48)
      else if 0x61 \<le> c \<and> c \<le> 0x66 then Some (unat c - 87)
      else if 0x41 \<le> c \<and> c \<le> 0x46 then Some (unat c - 55)
      else None)"

definition hex4 :: "jsstring \<Rightarrow> 16 word option" where
  "hex4 s =
     (case map hex_value s of
        [Some a, Some b, Some c, Some d] \<Rightarrow> Some (of_nat (((a * 16 + b) * 16 + c) * 16 + d))
      | _ \<Rightarrow> None)"

definition unescape :: "16 word \<Rightarrow> 16 word option" where
  "unescape e =
     (if e = 0x22 then Some 0x22 else if e = 0x5C then Some 0x5C
      else if e = 0x2F then Some 0x2F else if e = 0x62 then Some 0x08
      else if e = 0x66 then Some 0x0C else if e = 0x6E then Some 0x0A
      else if e = 0x72 then Some 0x0D else if e = 0x74 then Some 0x09
      else None)"

text \<open>A string, from after its opening quote: its content and what follows the closing quote.\<close>

fun json_string :: "jsstring \<Rightarrow> (jsstring \<times> jsstring) option" where
  "json_string [] = None"
| "json_string (c # cs) =
     (if c = 0x22 then Some ([], cs)
      else if c = 0x5C then
        (case cs of
           [] \<Rightarrow> None
         | e # es \<Rightarrow>
             if e = 0x75 then
               (case hex4 (take 4 es) of
                  None \<Rightarrow> None
                | Some u \<Rightarrow> map_option (\<lambda>(s, r). (u # s, r)) (json_string (drop 4 es)))
             else
               (case unescape e of
                  None \<Rightarrow> None
                | Some u \<Rightarrow> map_option (\<lambda>(s, r). (u # s, r)) (json_string es)))
      else if c < 0x20 then None
      else map_option (\<lambda>(s, r). (c # s, r)) (json_string cs))"

text \<open>A number: its lexeme \<open>-?(0|[1-9][0-9]*)(.[0-9]+)?([eE][+-]?[0-9]+)?\<close> and the rest.\<close>

definition json_number :: "jsstring \<Rightarrow> (jsstring \<times> jsstring) option" where
  "json_number s =
     (let sign = (if s \<noteq> [] \<and> hd s = 0x2D then [0x2D] else []);
          s1 = drop (length sign) s;
          whole = (if s1 \<noteq> [] \<and> hd s1 = 0x30 then [0x30] else takeWhile is_digit s1);
          s2 = drop (length whole) s1;
          fraction = (if s2 \<noteq> [] \<and> hd s2 = 0x2E then 0x2E # takeWhile is_digit (tl s2) else []);
          s3 = drop (length fraction) s2;
          marked = (s3 \<noteq> [] \<and> (hd s3 = 0x65 \<or> hd s3 = 0x45));
          signed = (marked \<and> tl s3 \<noteq> [] \<and> (hd (tl s3) = 0x2B \<or> hd (tl s3) = 0x2D));
          exponent = (if marked
                      then take (if signed then 2 else 1) s3
                             @ takeWhile is_digit (drop (if signed then 2 else 1) s3)
                      else []);
          s4 = drop (length exponent) s3
      in if whole = [] \<or> length fraction = 1
            \<or> (marked \<and> length exponent = (if signed then 2 else 1))
         then None
         else Some (sign @ whole @ fraction @ exponent, s4))"

fun json_value :: "nat \<Rightarrow> jsstring \<Rightarrow> (jsvalue \<times> jsstring) option"
  and json_elements :: "nat \<Rightarrow> jsstring \<Rightarrow> (jsvalue list \<times> jsstring) option"
  and json_members :: "nat \<Rightarrow> jsstring \<Rightarrow> ((jsstring \<times> jsvalue) list \<times> jsstring) option" where
  "json_value 0 s = None"
| "json_value (Suc n) [] = None"
| "json_value (Suc n) (c # cs) =
     (if c = 0x22 then map_option (\<lambda>(str, r). (JStr str, r)) (json_string cs)
      else if c = 0x5B then
        (case skip_ws cs of
           [] \<Rightarrow> None
         | d # ds \<Rightarrow>
             if d = 0x5D then Some (JArr [], ds)
             else map_option (\<lambda>(vs, r). (JArr vs, r)) (json_elements n (d # ds)))
      else if c = 0x7B then
        (case skip_ws cs of
           [] \<Rightarrow> None
         | d # ds \<Rightarrow>
             if d = 0x7D then Some (JObj [], ds)
             else map_option (\<lambda>(kvs, r). (JObj kvs, r)) (json_members n (d # ds)))
      else if take 4 (c # cs) = ascii ''true'' then Some (JBool True, drop 3 cs)
      else if take 5 (c # cs) = ascii ''false'' then Some (JBool False, drop 4 cs)
      else if take 4 (c # cs) = ascii ''null'' then Some (JNull, drop 3 cs)
      else map_option (\<lambda>(lexeme, r). (JNum lexeme, r)) (json_number (c # cs)))"
| "json_elements 0 s = None"
| "json_elements (Suc n) s =
     (case json_value n s of
        None \<Rightarrow> None
      | Some (v, r) \<Rightarrow>
          (case skip_ws r of
             [] \<Rightarrow> None
           | d # ds \<Rightarrow>
               if d = 0x2C then
                 map_option (\<lambda>(vs, r'). (v # vs, r')) (json_elements n (skip_ws ds))
               else if d = 0x5D then Some ([v], ds)
               else None))"
| "json_members 0 s = None"
| "json_members (Suc n) [] = None"
| "json_members (Suc n) (c # cs) =
     (if c \<noteq> 0x22 then None
      else
        (case json_string cs of
           None \<Rightarrow> None
         | Some (k, r) \<Rightarrow>
             (case skip_ws r of
                [] \<Rightarrow> None
              | d # ds \<Rightarrow>
                  if d \<noteq> 0x3A then None
                  else
                    (case json_value n (skip_ws ds) of
                       None \<Rightarrow> None
                     | Some (v, r') \<Rightarrow>
                         (case skip_ws r' of
                            [] \<Rightarrow> None
                          | x # xs \<Rightarrow>
                              if x = 0x2C then
                                map_option (\<lambda>(kvs, r''). ((k, v) # kvs, r''))
                                  (json_members n (skip_ws xs))
                              else if x = 0x7D then Some ([(k, v)], xs)
                              else None)))))"

definition JSON_parse :: "jsstring \<Rightarrow> jsvalue option" where
  "JSON_parse s =
     (case json_value (2 * length s + 2) (skip_ws s) of
        None \<Rightarrow> None
      | Some (v, r) \<Rightarrow> if skip_ws r = [] then Some v else None)"

text \<open>
  Reading a property. The names the program reads (\<open>candidates\<close>, \<open>content\<close>, \<open>parts\<close>,
  \<open>text\<close>, \<open>description\<close>, \<open>priority\<close>) are on no prototype, so only an object can have
  them (a later duplicate key wins); index \<open>0\<close> also exists on an array and on a string.
  \<open>opt_prop\<close> and \<open>opt_index0\<close> are \<open>?.name\<close> and \<open>?.[0]\<close>.
\<close>

definition nullish :: "jsvalue \<Rightarrow> bool" where
  "nullish v \<longleftrightarrow> v = Undefined \<or> v = JNull"

definition get_prop :: "jsvalue \<Rightarrow> jsstring \<Rightarrow> jsvalue" where
  "get_prop v name =
     (case v of
        JObj kvs \<Rightarrow> (case map_of (rev kvs) name of Some x \<Rightarrow> x | None \<Rightarrow> Undefined)
      | _ \<Rightarrow> Undefined)"

definition opt_prop :: "jsvalue \<Rightarrow> jsstring \<Rightarrow> jsvalue" where
  "opt_prop v name = (if nullish v then Undefined else get_prop v name)"

definition opt_index0 :: "jsvalue \<Rightarrow> jsvalue" where
  "opt_index0 v =
     (case v of
        JArr xs \<Rightarrow> (case xs of [] \<Rightarrow> Undefined | x # rest \<Rightarrow> x)
      | JStr s \<Rightarrow> (case s of [] \<Rightarrow> Undefined | c # rest \<Rightarrow> JStr [c])
      | JObj kvs \<Rightarrow> get_prop v (ascii ''0'')
      | _ \<Rightarrow> Undefined)"

text \<open>\<open>ToBoolean\<close>; a number is zero when its mantissa has no digit but \<open>0\<close>.\<close>

fun truthy :: "jsvalue \<Rightarrow> bool" where
  "truthy Undefined = False"
| "truthy JNull = False"
| "truthy (JBool b) = b"
| "truthy (JNum lexeme) =
     list_ex (\<lambda>c. 0x31 \<le> c \<and> c \<le> 0x39) (takeWhile (\<lambda>c. c \<noteq> 0x65 \<and> c \<noteq> 0x45) lexeme)"
| "truthy (JStr s) = (s \<noteq> [])"
| "truthy (JArr xs) = True"
| "truthy (JObj kvs) = True"

section \<open>GeminiService\<close>

definition UrlFetchApp_fetch_gemini ::
  "jsstring \<Rightarrow> jsstring \<Rightarrow> world \<Rightarrow> (error + nat \<times> jsstring) \<times> world" where
  "UrlFetchApp_fetch_gemini apiKey prompt w =
     (let w' = w\<lparr>gemini_requests := gemini_requests w @ [prompt]\<rparr> in
      case gemini_api w (length (gemini_requests w)) of
        Raises m \<Rightarrow> (Inl (Error m), w')
      | Responds statusCode responseBody \<Rightarrow> (Inr (statusCode, responseBody), w'))"

definition buildExtractionPrompt :: "jsstring \<Rightarrow> jsstring \<Rightarrow> jsstring" where
  \<open>buildExtractionPrompt emailBody emailSubject =
     ascii ''You are a todo extraction assistant. Extract actionable todo items from the following email.''
     @ nl @ nl @ ascii ''Email Subject: '' @ emailSubject
     @ nl @ nl @ ascii ''Email Content:''
     @ nl @ emailBody
     @ nl @ nl @ ascii ''Instructions:''
     @ nl @ ascii ''1. Extract ONLY actionable todo items (tasks that need to be done)''
     @ nl @ ascii ''2. Ignore greetings, signatures, and non-actionable content''
     @ nl @ ascii ''3. Return todos in JSON format as an array of objects''
     @ nl @ ascii ''4. Each todo should have: description (string), priority (optional: "high", "medium", "low")''
     @ nl @ ascii ''5. If no todos found, return an empty array''
     @ nl @ nl @ ascii ''Format:''
     @ nl @ ascii ''[''
     @ nl @ ascii ''  {"description": "Review pull request", "priority": "high"},''
     @ nl @ ascii ''  {"description": "Update documentation"}''
     @ nl @ ascii '']''
     @ nl @ nl @ ascii ''Return ONLY the JSON array, no additional text.''\<close>

text \<open>
  \<open>callGeminiAPI\<close>: a transport failure of the fetch propagates; a status other than 200
  throws; \<open>JSON.parse\<close> of the body and \<open>data.candidates\<close> on \<open>null\<close> throw as well, with
  nothing to catch them; a response without candidate text yields the text \<open>[]\<close>.
\<close>

definition callGeminiAPI :: "jsstring \<Rightarrow> jsstring \<Rightarrow> world \<Rightarrow> (error + jsvalue) \<times> world" where
  "callGeminiAPI apiKey prompt w =
     (case UrlFetchApp_fetch_gemini apiKey prompt w of
        (Inl e, w') \<Rightarrow> (Inl e, w')
      | (Inr (statusCode, responseBody), w') \<Rightarrow>
          if statusCode \<noteq> 200
          then (Inl (Error (ascii ''Gemini API error: '' @ Number_toString (int statusCode))), w')
          else
            (case JSON_parse responseBody of
               None \<Rightarrow> (Inl SyntaxError, w')
             | Some data \<Rightarrow>
                 if nullish data then (Inl TypeError, w')
                 else
                   let content =
                         opt_prop (opt_index0 (opt_prop (opt_prop (opt_index0
                           (get_prop data (ascii ''candidates''))) (ascii ''content'')) (ascii ''parts'')))
                           (ascii ''text'')
                   in if \<not> truthy content then (Inr (JStr (ascii ''[]'')), w')
                      else (Inr content, w')))"

definition code_fence :: jsstring where
  "code_fence = replicate 3 0x60"

text \<open>\<open>replace(/```json\n?/, '')\<close> and \<open>replace(/```\n?/, '')\<close> on a text that starts with the fence.\<close>

definition strip_opening :: "nat \<Rightarrow> jsstring \<Rightarrow> jsstring" where
  "strip_opening n s =
     (let rest = drop n s in if rest \<noteq> [] \<and> hd rest = 0x0A then tl rest else rest)"

text \<open>\<open>replace(/\n?```$/, '')\<close>: a closing fence at the very end, with the line break before it.\<close>

definition strip_closing :: "jsstring \<Rightarrow> jsstring" where
  "strip_closing s =
     (if length s \<ge> 3 \<and> drop (length s - 3) s = code_fence
      then (let front = take (length s - 3) s
            in if front \<noteq> [] \<and> last front = 0x0A then butlast front else front)
      else s)"

text \<open>Removing the Markdown fence from the trimmed response, when it starts with one.\<close>

definition unfence :: "jsstring \<Rightarrow> jsstring" where
  "unfence trimmed =
     (if take 7 trimmed = code_fence @ ascii ''json''
      then strip_closing (strip_opening 7 trimmed)
      else if take 3 trimmed = code_fence
      then strip_closing (strip_opening 3 trimmed)
      else trimmed)"

definition todo_of :: "jsstring \<Rightarrow> jsstring \<Rightarrow> jsstring \<Rightarrow> jsvalue \<Rightarrow> todoItem" where
  "todo_of emailId senderEmail emailSubject todo =
     \<lparr>description = get_prop todo (ascii ''description''),
      priority = get_prop todo (ascii ''priority''),
      sourceEmailId = emailId, sourceSender = senderEmail, sourceSubject = emailSubject,
      matchedPattern = AI_EXTRACTED\<rparr>"

text \<open>
  The \<open>try\<close> block of \<open>parseTodosFromResponse\<close>: \<open>trim\<close> on something that is not a
  string, \<open>JSON.parse\<close> on malformed text and \<open>todo.description\<close> on a \<open>null\<close> element
  throw.
\<close>

definition parseTodos_try ::
  "jsvalue \<Rightarrow> jsstring \<Rightarrow> jsstring \<Rightarrow> jsstring \<Rightarrow> error + todoItem list" where
  "parseTodos_try response emailId senderEmail emailSubject =
     (case response of
        JStr text \<Rightarrow>
          (let jsonStr = unfence (js_trim text)
           in case JSON_parse jsonStr of
                None \<Rightarrow> Inl SyntaxError
              | Some parsed \<Rightarrow>
                  (case parsed of
                     JArr todos \<Rightarrow>
                       if list_ex nullish todos then Inl TypeError
                       else Inr (map (todo_of emailId senderEmail emailSubject) todos)
                   | _ \<Rightarrow> Inr []))
      | _ \<Rightarrow> Inl TypeError)"

text \<open>\<open>parseTodosFromResponse\<close>: the \<open>catch\<close> turns every exception of the block into \<open>[]\<close>.\<close>

definition parseTodosFromResponse ::
  "jsvalue \<Rightarrow> jsstring \<Rightarrow> jsstring \<Rightarrow> jsstring \<Rightarrow> todoItem list" where
  "parseTodosFromResponse response emailId senderEmail emailSubject =
     (case parseTodos_try response emailId senderEmail emailSubject of
        Inl e \<Rightarrow> []
      | Inr todos \<Rightarrow> todos)"

definition extractTodos ::
  "jsstring \<Rightarrow> jsstring \<Rightarrow> jsstring \<Rightarrow> jsstring \<Rightarrow> jsstring \<Rightarrow> world
     \<Rightarrow> (error + todoItem list) \<times> world" where
  "extractTodos apiKey emailBody emailId senderEmail emailSubject w =
     (case callGeminiAPI apiKey (buildExtractionPrompt emailBody emailSubject) w of
        (Inl e, w') \<Rightarrow> (Inl e, w')
      | (Inr response, w') \<Rightarrow>
          (Inr (parseTodosFromResponse response emailId senderEmail emailSubject), w'))"

section \<open>EmailParser\<close>

text \<open>\<open>stripHtml\<close>: \<open>html.replace(/<[^>]*>/g, '').trim()\<close>.\<close>

function strip_tags :: "jsstring \<Rightarrow> jsstring" where
  "strip_tags [] = []"
| "strip_tags (c # cs) =
     (if c = 0x3C \<and> dropWhile (\<lambda>x. x \<noteq> 0x3E) cs \<noteq> []
      then strip_tags (tl (dropWhile (\<lambda>x. x \<noteq> 0x3E) cs))
      else c # strip_tags cs)"
  by pat_completeness auto
termination
proof (relation "measure length")
  fix c :: "16 word" and cs :: jsstring
  have "length (tl (dropWhile (\<lambda>x. x \<noteq> 0x3E) cs)) \<le> length cs"
    using length_dropWhile_le [of "\<lambda>x. x \<noteq> 0x3E" cs] by simp
  then show "(tl (dropWhile (\<lambda>x. x \<noteq> 0x3E) cs), c # cs) \<in> measure length"
    by simp
qed simp_all

definition stripHtml :: "jsstring \<Rightarrow> jsstring" where
  "stripHtml html = js_trim (strip_tags html)"

definition isDuplicate :: "todoItem list \<Rightarrow> jsstring \<Rightarrow> bool" where
  "isDuplicate todos d = list_ex (\<lambda>todo. description todo = JStr d) todos"

text \<open>
  The body of the \<open>while\<close> loop of \<open>extractTodos\<close> for one match: the description is
  \<open>(match[1] || match[2])?.trim()\<close>, and the item is pushed only when the description is
  not empty and not yet there.
\<close>

definition add_match ::
  "jsstring \<Rightarrow> jsstring \<Rightarrow> jsstring \<Rightarrow> todoPattern \<Rightarrow> todoItem list
     \<Rightarrow> jsstring option \<times> jsstring option \<Rightarrow> todoItem list" where
  "add_match emailId sender subject pattern todos groups =
     (let captured = (case fst groups of
                        None \<Rightarrow> snd groups
                      | Some g \<Rightarrow> if g \<noteq> [] then Some g else snd groups)
      in case map_option js_trim captured of
           None \<Rightarrow> todos
         | Some d \<Rightarrow>
             if d \<noteq> [] \<and> \<not> isDuplicate todos d
             then todos @ [\<lparr>description = JStr d, priority = Undefined,
                             sourceEmailId = emailId, sourceSender = sender,
                             sourceSubject = subject, matchedPattern = pattern\<rparr>]
             else todos)"

definition EmailParser_extractTodos ::
  "jsstring \<Rightarrow> jsstring \<Rightarrow> jsstring \<Rightarrow> jsstring \<Rightarrow> world \<Rightarrow> todoItem list" where
  "EmailParser_extractTodos emailBody emailId sender subject w =
     (let plainText = stripHtml emailBody in
      foldl (\<lambda>todos pattern.
               foldl (add_match emailId sender subject pattern) todos
                 (regex_matches w pattern plainText))
        [] [NUMBERED, BULLET, ACTION, CHECKBOX])"

section \<open>The orchestrator that sends a run summary\<close>

text \<open>
  The second half of \<open>email/EmailService.ts\<close> (``Main orchestration'', with
  \<open>GeminiService\<close> and \<open>sendRunSummary\<close>): the entry point the README describes.
\<close>

definition MAX_EXECUTION_TIME_MS :: int where
  "MAX_EXECUTION_TIME_MS = 6 * 60 * 1000"

datatype run_status = StatusSuccess | StatusError

definition summary_text ::
  "jsstring \<Rightarrow> nat \<Rightarrow> nat \<Rightarrow> jsstring \<Rightarrow> run_status \<Rightarrow> jsstring option \<Rightarrow> jsstring" where
  "summary_text timestamp emailsFound todosExtracted executionTimeSec st errorMsg =
     (if st = StatusSuccess then [0x2705] else [0x274C])
     @ ascii '' Email Monitor Run Summary'' @ nl @ nl
     @ ascii ''Time: '' @ timestamp @ nl
     @ ascii ''Emails Found: '' @ Number_toString (int emailsFound) @ nl
     @ ascii ''Todos Extracted: '' @ Number_toString (int todosExtracted) @ nl
     @ ascii ''Execution Time: '' @ executionTimeSec @ ascii ''s'' @ nl
     @ ascii ''Status: '' @ (if st = StatusSuccess then ascii ''Completed'' else ascii ''Failed'')
     @ (case errorMsg of
          None \<Rightarrow> []
        | Some m \<Rightarrow> if m \<noteq> [] then nl @ nl @ ascii ''Error: '' @ m else [])"

text \<open>\<open>sendRunSummary\<close>: whatever \<open>pushMessage\<close> throws is caught and logged.\<close>

definition sendRunSummary ::
  "appConfig \<Rightarrow> nat \<Rightarrow> nat \<Rightarrow> jsstring \<Rightarrow> run_status \<Rightarrow> jsstring option \<Rightarrow> world \<Rightarrow> world" where
  "sendRunSummary config emailsFound todosExtracted executionTimeSec st errorMsg w =
     (let (now, w1) = Date_now w;
          summary = summary_text (toLocaleString w now) emailsFound todosExtracted
                      executionTimeSec st errorMsg
      in snd (pushMessage (lineAccessToken config) (lineGroupId config) summary w1))"

definition body_of :: "emailMessage \<Rightarrow> jsstring" where
  "body_of email = (if bodyHtml email \<noteq> [] then bodyHtml email else bodyPlain email)"

definition processEmail :: "emailMessage \<Rightarrow> appConfig \<Rightarrow> world \<Rightarrow> (error + nat) \<times> world" where
  "processEmail email config w =
     (case extractTodos (geminiApiKey config) (body_of email) (email_id email)
             (email_from email) (email_subject email) (w\<lparr>visited := visited w @ [email]\<rparr>) of
        (Inl e, w1) \<Rightarrow> (Inl e, w1)
      | (Inr todos, w1) \<Rightarrow>
          if length todos = 0
          then (Inr 0, updateLastProcessedTime (receivedDate email) w1)
          else
            let message = formatTodosForLine todos (email_from email) (email_subject email) in
            if message = []
            then (Inr 0, updateLastProcessedTime (receivedDate email) w1)
            else
              (case pushMessage (lineAccessToken config) (lineGroupId config) message w1 of
                 (Inl e, w2) \<Rightarrow> (Inl e, w2)
               | (Inr response, w2) \<Rightarrow>
                   if status response = 200
                   then (Inr (length todos), updateLastProcessedTime (receivedDate email) w2)
                   else (Inr (length todos), updateLastProcessedTime (receivedDate email) w2)))"

text \<open>The \<open>for\<close> loop of \<open>processFilteredEmails\<close>, where \<open>extracted\<close> is \<open>totalTodosExtracted\<close> so far.\<close>

fun processFilteredEmails_loop ::
  "emailMessage list \<Rightarrow> appConfig \<Rightarrow> int \<Rightarrow> nat \<Rightarrow> world \<Rightarrow> (error + nat) \<times> world" where
  "processFilteredEmails_loop [] config startTime extracted w = (Inr extracted, w)"
| "processFilteredEmails_loop (email # rest) config startTime extracted w =
     (let (now, w1) = Date_now w in
      if now - startTime > MAX_EXECUTION_TIME_MS then (Inr extracted, w1)
      else
        (case processEmail email config w1 of
           (Inl e, w2) \<Rightarrow> (Inl e, w2)
         | (Inr n, w2) \<Rightarrow> processFilteredEmails_loop rest config startTime (extracted + n) w2))"

definition processFilteredEmails ::
  "emailMessage list \<Rightarrow> appConfig \<Rightarrow> int \<Rightarrow> world \<Rightarrow> (error + nat) \<times> world" where
  "processFilteredEmails filteredEmails config startTime w =
     processFilteredEmails_loop filteredEmails config startTime 0 w"

definition fetchEmails :: "appConfig \<Rightarrow> int \<Rightarrow> world \<Rightarrow> (error + emailMessage list) \<times> world" where
  "fetchEmails config startTime w =
     (case fetchNewEmails (maxEmailsPerRun config) (lastProcessedTime config)
             (senderWhitelist config) w of
        (Inl e, w1) \<Rightarrow> (Inl e, w1)
      | (Inr emails, w1) \<Rightarrow>
          (let (now, w2) = Date_now w1 in
           if now - startTime > MAX_EXECUTION_TIME_MS then (Inr [], w2) else (Inr emails, w2)))"

definition error_message :: "world \<Rightarrow> error \<Rightarrow> jsstring" where
  "error_message w e = (case e of Error m \<Rightarrow> m | _ \<Rightarrow> engine_message w e)"

text \<open>The \<open>try\<close> block of \<open>processEmails\<close>.\<close>

definition processEmails_try ::
  "appConfig \<Rightarrow> emailMessage list \<Rightarrow> int \<Rightarrow> world \<Rightarrow> (error + unit) \<times> world" where
  "processEmails_try config emails startTime w =
     (if length emails = 0 then
        (let (processingEndTime, w1) = Date_now w
         in (Inr (), sendRunSummary config 0 0 (toFixed2 w (processingEndTime - startTime))
                       StatusSuccess None w1))
      else
        (case processFilteredEmails emails config startTime w of
           (Inl e, w1) \<Rightarrow> (Inl e, w1)
         | (Inr totalTodosExtracted, w1) \<Rightarrow>
             (let (processingEndTime, w2) = Date_now w1
              in (Inr (), sendRunSummary config (length emails) totalTodosExtracted
                            (toFixed2 w (processingEndTime - startTime)) StatusSuccess None w2))))"

text \<open>
  \<open>processEmails\<close>: the configuration is loaded and the mailbox is fetched before the
  \<open>try\<close> block is entered; the \<open>catch\<close> reads the clock, sends the error summary and
  throws the exception again.
\<close>

definition processEmails :: "world \<Rightarrow> (error + unit) \<times> world" where
  "processEmails w =
     (let (startTime, w1) = Date_now w in
      case getConfig w1 of
        Inl e \<Rightarrow> (Inl e, w1)
      | Inr config \<Rightarrow>
          (case fetchEmails config startTime w1 of
             (Inl e, w2) \<Rightarrow> (Inl e, w2)
           | (Inr emails, w2) \<Rightarrow>
               (case processEmails_try config emails startTime w2 of
                  (Inr u, w3) \<Rightarrow> (Inr u, w3)
                | (Inl e, w3) \<Rightarrow>
                    (let (now, w4) = Date_now w3
                     in (Inl e, sendRunSummary config 0 0 (ascii ''0.00'') StatusError
                                  (Some (error_message w e)) w4)))))"

section \<open>The orchestrator of main.ts\<close>

text \<open>
  \<open>src/main.ts\<close>, the file the webpack configuration names as entry: it extracts with
  \<open>EmailParser\<close>, filters with \<open>filterBySender\<close>, sends no summary, and writes the watermark
  once, at the end of the run. Its functions carry the prefix \<open>main_\<close> where the name is
  that of a function above.
\<close>

definition main_processEmail :: "emailMessage \<Rightarrow> appConfig \<Rightarrow> world \<Rightarrow> (error + nat) \<times> world" where
  "main_processEmail email config w =
     (let w0 = w\<lparr>visited := visited w @ [email]\<rparr>;
          todos = EmailParser_extractTodos (body_of email) (email_id email)
                    (email_from email) (email_subject email) w0
      in if length todos = 0 then (Inr 0, w0)
         else
           let message = formatTodosForLine todos (email_from email) (email_subject email) in
           if message = [] then (Inr 0, w0)
           else
             (case pushMessage (lineAccessToken config) (lineGroupId config) message w0 of
                (Inl e, w1) \<Rightarrow> (Inl e, w1)
              | (Inr response, w1) \<Rightarrow>
                  if status response = 200 then (Inr (length todos), w1)
                  else (Inr (length todos), w1)))"

fun main_processFilteredEmails_loop ::
  "emailMessage list \<Rightarrow> appConfig \<Rightarrow> int \<Rightarrow> nat \<Rightarrow> world \<Rightarrow> (error + nat) \<times> world" where
  "main_processFilteredEmails_loop [] config startTime extracted w = (Inr extracted, w)"
| "main_processFilteredEmails_loop (email # rest) config startTime extracted w =
     (let (now, w1) = Date_now w in
      if now - startTime > MAX_EXECUTION_TIME_MS then (Inr extracted, w1)
      else
        (case main_processEmail email config w1 of
           (Inl e, w2) \<Rightarrow> (Inl e, w2)
         | (Inr n, w2) \<Rightarrow> main_processFilteredEmails_loop rest config startTime (extracted + n) w2))"

definition main_processFilteredEmails ::
  "emailMessage list \<Rightarrow> appConfig \<Rightarrow> int \<Rightarrow> world \<Rightarrow> (error + nat) \<times> world" where
  "main_processFilteredEmails filteredEmails config startTime w =
     main_processFilteredEmails_loop filteredEmails config startTime 0 w"

definition fetchAndFilterEmails ::
  "appConfig \<Rightarrow> int \<Rightarrow> world \<Rightarrow> (error + emailMessage list) \<times> world" where
  "fetchAndFilterEmails config startTime w =
     (case fetchNewEmails_inbox (maxEmailsPerRun config) (lastProcessedTime config) w of
        (Inl e, w1) \<Rightarrow> (Inl e, w1)
      | (Inr allEmails, w1) \<Rightarrow>
          (let (now, w2) = Date_now w1 in
           if now - startTime > MAX_EXECUTION_TIME_MS then (Inr [], w2)
           else (Inr (filterBySender allEmails (senderWhitelist config)), w2)))"

text \<open>The \<open>try\<close> block of \<open>processEmails\<close> in \<open>main.ts\<close>.\<close>

definition main_processEmails_try :: "int \<Rightarrow> world \<Rightarrow> (error + unit) \<times> world" where
  "main_processEmails_try startTime w =
     (case getConfig w of
        Inl e \<Rightarrow> (Inl e, w)
      | Inr config \<Rightarrow>
          (case fetchAndFilterEmails config startTime w of
             (Inl e, w1) \<Rightarrow> (Inl e, w1)
           | (Inr filteredEmails, w1) \<Rightarrow>
               if length filteredEmails = 0 then
                 (let (now, w2) = Date_now w1 in (Inr (), updateLastProcessedTime now w2))
               else
                 (case main_processFilteredEmails filteredEmails config startTime w1 of
                    (Inl e, w2) \<Rightarrow> (Inl e, w2)
                  | (Inr totalTodosExtracted, w2) \<Rightarrow>
                      (let (processingEndTime, w3) = Date_now w2
                       in (Inr (), updateLastProcessedTime processingEndTime w3)))))"

definition main_processEmails :: "world \<Rightarrow> (error + unit) \<times> world" where
  "main_processEmails w =
     (let (startTime, w1) = Date_now w in
      case main_processEmails_try startTime w1 of
        (Inr u, w2) \<Rightarrow> (Inr u, w2)
      | (Inl e, w2) \<Rightarrow> (let (now, w3) = Date_now w2 in (Inl e, w3)))"

text \<open>One run after another: the state of the world after \<open>n\<close> runs of \<open>main.ts\<close>.\<close>

fun main_runs :: "nat \<Rightarrow> world \<Rightarrow> world" where
  "main_runs 0 w = w"
| "main_runs (Suc n) w = main_runs n (snd (main_processEmails w))"

section \<open>Concrete scenarios\<close>


text \<open>The push endpoint answers 429 three times and 200 from then on.\<close>

definition rate_limited_world :: world where
  "rate_limited_world =
     idle_world\<lparr>line_api :=
       (\<lambda>n. if n < 3 then Responds 429 (ascii ''rate limited'') else Responds 200 (ascii ''{}''))\<rparr>"


text \<open>
  A configured store, and a mailbox whose search returns the newest thread first: one
  message received at 3000, then a thread with messages received at 2000 and 2500.
\<close>

definition configured_props :: "string \<rightharpoonup> jsstring" where
  "configured_props =
     [''lineAccessToken'' \<mapsto> ascii ''token'', ''lineGroupId'' \<mapsto> ascii ''C1'',
      ''geminiApiKey'' \<mapsto> ascii ''key'', ''senderWhitelist'' \<mapsto> ascii ''a@x.com'',
      ''lastProcessedTime'' \<mapsto> ascii ''1000'', ''maxEmailsPerRun'' \<mapsto> ascii ''2'']"

definition configured :: appConfig where
  "configured =
     \<lparr>lineAccessToken = ascii ''token'', lineGroupId = ascii ''C1'', geminiApiKey = ascii ''key'',
      senderWhitelist = [ascii ''a@x.com''], lastProcessedTime = 1000, maxEmailsPerRun = Some 2\<rparr>"

definition mail :: "string \<Rightarrow> int \<Rightarrow> gmailMessage" where
  "mail ident date =
     \<lparr>getId = ascii ident, getFrom = ascii ''a@x.com'', getSubject = ascii ''Report'',
      getPlainBody = ascii ''1. Send the report'', getBody = [], getDate = date\<rparr>"

definition thread_of :: "string \<Rightarrow> gmailMessage list \<Rightarrow> gmailThread" where
  "thread_of ident messages =
     \<lparr>thread_getId = ascii ident, thread_getLabels = [], getMessages = messages\<rparr>"

definition inbox :: "gmailThread list" where
  "inbox = [thread_of ''t2'' [mail ''m3'' 3000],
            thread_of ''t1'' [mail ''m1'' 2000, mail ''m2'' 2500]]"

definition newest_first_world :: world where
  "newest_first_world =
     idle_world\<lparr>props := configured_props,
       gmail := (\<lambda>n. SearchReturns inbox),
       gemini_api := (\<lambda>n. Responds 200 (ascii ''{}''))\<rparr>"

text \<open>The extraction endpoint answers 500; the extraction endpoint cannot be reached.\<close>

definition gemini_down_world :: world where
  "gemini_down_world = idle_world\<lparr>gemini_api := (\<lambda>n. Responds 500 (ascii ''Internal error''))\<rparr>"

definition gemini_unreachable_world :: world where
  "gemini_unreachable_world = idle_world\<lparr>gemini_api := (\<lambda>n. Raises (ascii ''DNS error''))\<rparr>"







text \<open>
  Nothing new in the mailbox: the watermark is the date of the newest message, and the
  clock reads 5000, 5001, ...
\<close>

definition caught_up_world :: world where
  "caught_up_world =
     idle_world\<lparr>clock := (\<lambda>n. 5000 + int n),
       props := configured_props(''lastProcessedTime'' \<mapsto> ascii ''3000''),
       gmail := (\<lambda>n. SearchReturns inbox)\<rparr>"

definition mailbox_down_world :: world where
  "mailbox_down_world =
     idle_world\<lparr>props := configured_props,
       gmail := (\<lambda>n. SearchRaises (ascii ''Service unavailable''))\<rparr>"

section \<open>Properties of the formatter\<close>








section \<open>Properties of the retry loop\<close>

lemma withRetry_loop_returns:
  "attempt \<le> maxRetries \<Longrightarrow> fn w = (Inr v, w') \<Longrightarrow>
   withRetry_loop fn maxRetries attempt lastError w = (Inr v, w')"
  by (subst withRetry_loop.simps) simp



lemma sendToLineApi_responds:
  "line_api w (length (line_requests w)) = Responds st b \<Longrightarrow>
   sendToLineApi tok gid txt w =
     (Inr (handleLineResponse st b),
      w\<lparr>line_requests := line_requests w @ [\<lparr>req_token = tok, req_to = gid, req_text = txt\<rparr>]\<rparr>)"
  by (simp add: sendToLineApi_def UrlFetchApp_fetch_line_def Let_def)

lemma sendToLineApi_raises:
  "line_api w (length (line_requests w)) = Raises m \<Longrightarrow>
   sendToLineApi tok gid txt w =
     (Inl (Error m),
      w\<lparr>line_requests := line_requests w @ [\<lparr>req_token = tok, req_to = gid, req_text = txt\<rparr>]\<rparr>)"
  by (simp add: sendToLineApi_def UrlFetchApp_fetch_line_def Let_def)



text \<open>
  Claim C1 at its own scenario: the endpoint answers 429, 429, 429, 200. The first 429 is
  a normal return of \<open>sendToLineApi\<close>, so \<open>withRetry\<close> returns it at once: one request, no
  sleep, and the outcome carries status 429.
\<close>

theorem rate_limited_push_is_not_retried:
  "pushMessage (ascii ''token'') (ascii ''C1'') (ascii ''hello'') rate_limited_world =
     (Inr \<lparr>status = 429, body = ascii ''rate limited'', has_error = True\<rparr>,
      rate_limited_world
        \<lparr>line_requests :=
           [\<lparr>req_token = ascii ''token'', req_to = ascii ''C1'', req_text = ascii ''hello''\<rparr>],
         pushes := [(ascii ''C1'', ascii ''hello'')]\<rparr>)"
  unfolding pushMessage_def withRetry_def
  by (subst withRetry_loop_returns [OF _ sendToLineApi_responds [of _ 429 "ascii ''rate limited''"]])
     (simp_all add: rate_limited_world_def idle_world_def handleLineResponse_def
        buildErrorResponse_def)

section \<open>Frames: what an operation leaves alone\<close>

lemma getConfig_props: "props w' = props w \<Longrightarrow> getConfig w' = getConfig w"
  by (simp add: getConfig_def)

lemma sendToLineApi_frame:
  "\<exists>r. sendToLineApi tok gid msg w =
     (r, w\<lparr>line_requests := line_requests w @ [\<lparr>req_token = tok, req_to = gid, req_text = msg\<rparr>]\<rparr>)"
  by (cases "line_api w (length (line_requests w))")
     (simp_all add: sendToLineApi_raises sendToLineApi_responds)

lemma withRetry_loop_frame:
  "\<exists>r reqs sl. withRetry_loop (sendToLineApi tok gid msg) maxRetries attempt lastError w =
     (r, w\<lparr>line_requests := line_requests w @ reqs, sleeps := sleeps w @ sl\<rparr>)"
proof (induction "Suc maxRetries - attempt" arbitrary: attempt lastError w)
  case 0
  then have "\<not> attempt \<le> maxRetries" by simp
  then have "withRetry_loop (sendToLineApi tok gid msg) maxRetries attempt lastError w =
      (Inl (case lastError of Some e \<Rightarrow> e
            | None \<Rightarrow> Error (ascii ''Retry failed with unknown error'')), w)"
    by (subst withRetry_loop.simps) simp
  then show ?case
    by (intro exI [where x = "[]"] exI) simp
next
  case (Suc d)
  then have le: "attempt \<le> maxRetries" and d: "d = Suc maxRetries - Suc attempt" by simp_all
  let ?req = "\<lparr>req_token = tok, req_to = gid, req_text = msg\<rparr>"
  let ?w1 = "w\<lparr>line_requests := line_requests w @ [?req]\<rparr>"
  obtain r where r: "sendToLineApi tok gid msg w = (r, ?w1)"
    using sendToLineApi_frame by blast
  show ?case
  proof (cases r)
    case (Inr v)
    with r le have "withRetry_loop (sendToLineApi tok gid msg) maxRetries attempt lastError w = (Inr v, ?w1)"
      by (simp add: withRetry_loop_returns)
    then show ?thesis
      by (intro exI [where x = "[?req]"] exI [where x = "[]"] exI [where x = "Inr v"]) simp
  next
    case (Inl e)
    let ?w2 = "if attempt < maxRetries then Utilities_sleep (2 ^ attempt * 1000) ?w1 else ?w1"
    have step: "withRetry_loop (sendToLineApi tok gid msg) maxRetries attempt lastError w =
        withRetry_loop (sendToLineApi tok gid msg) maxRetries (Suc attempt) (Some e) ?w2"
      using r Inl le by (subst withRetry_loop.simps) simp
    from Suc.hyps(1) [OF d, of "Some e" ?w2]
    obtain r' reqs sl where
      "withRetry_loop (sendToLineApi tok gid msg) maxRetries (Suc attempt) (Some e) ?w2 =
         (r', ?w2\<lparr>line_requests := line_requests ?w2 @ reqs, sleeps := sleeps ?w2 @ sl\<rparr>)"
      by blast
    with step have "withRetry_loop (sendToLineApi tok gid msg) maxRetries attempt lastError w =
        (r', w\<lparr>line_requests := line_requests w @ (?req # reqs),
               sleeps := sleeps w @ ((if attempt < maxRetries then [2 ^ attempt * 1000] else []) @ sl)\<rparr>)"
      by (simp add: Utilities_sleep_def)
    then show ?thesis by blast
  qed
qed

lemma pushMessage_frame:
  "\<exists>r reqs sl. pushMessage tok gid msg w =
     (r, w\<lparr>pushes := pushes w @ [(gid, msg)],
            line_requests := line_requests w @ reqs, sleeps := sleeps w @ sl\<rparr>)"
proof -
  let ?w0 = "w\<lparr>pushes := pushes w @ [(gid, msg)]\<rparr>"
  from withRetry_loop_frame [of tok gid msg 3 0 None ?w0]
  obtain r reqs sl where
    "withRetry_loop (sendToLineApi tok gid msg) 3 0 None ?w0 =
       (r, ?w0\<lparr>line_requests := line_requests ?w0 @ reqs, sleeps := sleeps ?w0 @ sl\<rparr>)"
    by blast
  then have "pushMessage tok gid msg w =
     (r, w\<lparr>pushes := pushes w @ [(gid, msg)],
            line_requests := line_requests w @ reqs, sleeps := sleeps w @ sl\<rparr>)"
    by (simp add: pushMessage_def withRetry_def)
  then show ?thesis by blast
qed

section \<open>Extraction\<close>

lemma JSON_parse_empty_object: "JSON_parse (ascii ''{}'') = Some (JObj [])"
  by code_simp

lemma JSON_parse_empty_array: "JSON_parse (ascii ''[]'') = Some (JArr [])"
  by code_simp

lemma js_trim_brackets: "js_trim (ascii ''[]'') = ascii ''[]''"
  by code_simp

lemma brackets_not_fenced: "unfence (ascii ''[]'') = ascii ''[]''"
  by code_simp

lemma parseTodos_empty_array:
  "parseTodosFromResponse (JStr (ascii ''[]'')) emailId senderEmail emailSubject = []"
  by (simp add: parseTodosFromResponse_def parseTodos_try_def js_trim_brackets
        JSON_parse_empty_array Let_def brackets_not_fenced)

lemma extractTodos_frame:
  "\<exists>r. extractTodos apiKey emailBody emailId senderEmail emailSubject w =
     (r, w\<lparr>gemini_requests := gemini_requests w @ [buildExtractionPrompt emailBody emailSubject]\<rparr>)"
  by (cases "gemini_api w (length (gemini_requests w))")
     (auto simp: extractTodos_def callGeminiAPI_def UrlFetchApp_fetch_gemini_def Let_def
        split: option.splits)

lemma extractTodos_raises:
  "gemini_api w (length (gemini_requests w)) = Raises m \<Longrightarrow>
   fst (extractTodos apiKey emailBody emailId senderEmail emailSubject w) = Inl (Error m)"
  by (simp add: extractTodos_def callGeminiAPI_def UrlFetchApp_fetch_gemini_def Let_def)

lemma extractTodos_status:
  "gemini_api w (length (gemini_requests w)) = Responds st b \<Longrightarrow> st \<noteq> 200 \<Longrightarrow>
   fst (extractTodos apiKey emailBody emailId senderEmail emailSubject w) =
     Inl (Error (ascii ''Gemini API error: '' @ Number_toString (int st)))"
  by (simp add: extractTodos_def callGeminiAPI_def UrlFetchApp_fetch_gemini_def Let_def)

lemma extractTodos_no_candidates:
  "gemini_api w (length (gemini_requests w)) = Responds 200 (ascii ''{}'') \<Longrightarrow>
   extractTodos apiKey emailBody emailId senderEmail emailSubject w =
     (Inr [], w\<lparr>gemini_requests := gemini_requests w @ [buildExtractionPrompt emailBody emailSubject]\<rparr>)"
  by (simp add: extractTodos_def callGeminiAPI_def UrlFetchApp_fetch_gemini_def Let_def
        JSON_parse_empty_object nullish_def get_prop_def opt_prop_def opt_index0_def
        parseTodos_empty_array)

lemma processEmail_no_candidates:
  "gemini_api w (length (gemini_requests w)) = Responds 200 (ascii ''{}'') \<Longrightarrow>
   processEmail email config w =
     (Inr 0, w\<lparr>visited := visited w @ [email],
              gemini_requests := gemini_requests w
                @ [buildExtractionPrompt (body_of email) (email_subject email)],
              props := (props w)(''lastProcessedTime'' \<mapsto> Number_toString (receivedDate email))\<rparr>)"
  by (simp add: processEmail_def extractTodos_no_candidates updateLastProcessedTime_def)

section \<open>The decimal watermark\<close>

lemma unat_digit_unit: "d < 10 \<Longrightarrow> unat (of_nat (48 + d) :: 16 word) = 48 + d"
  by (simp only: unat_of_nat) simp

lemma digit_unit:
  "d < 10 \<Longrightarrow> is_digit (of_nat (48 + d)) \<and> digit_value (of_nat (48 + d)) = d"
  unfolding is_digit_def digit_value_def word_le_nat_alt
  by (simp only: unat_digit_unit) simp

lemma digits10_digits: "c \<in> set (digits10 n) \<Longrightarrow> is_digit c"
proof (induction n arbitrary: c rule: digits10.induct)
  case (1 n)
  show ?case
  proof (cases "n < 10")
    case True
    with "1.prems" have "c = of_nat (48 + n)"
      by (subst (asm) digits10.simps) (simp del: of_nat_add)
    with True show ?thesis by (simp only: digit_unit)
  next
    case False
    with "1.prems" have "c \<in> set (digits10 (n div 10)) \<or> c = of_nat (48 + n mod 10)"
      by (subst (asm) digits10.simps) (auto simp del: of_nat_add)
    then show ?thesis
      using "1.IH" [OF False] digit_unit [of "n mod 10"] by auto
  qed
qed

lemma digits10_nonempty: "digits10 n \<noteq> []"
  by (subst digits10.simps) simp

lemma digits10_value:
  "foldl (\<lambda>a c. 10 * a + digit_value c) a (digits10 n) = a * 10 ^ length (digits10 n) + n"
proof (induction n arbitrary: a rule: digits10.induct)
  case (1 n)
  show ?case
  proof (cases "n < 10")
    case True
    then have unfold: "digits10 n = [of_nat (48 + n)]"
      by (subst digits10.simps) (simp del: of_nat_add)
    show ?thesis
      unfolding unfold using digit_unit [OF True] by (simp del: of_nat_add)
  next
    case False
    then have unfold: "digits10 n = digits10 (n div 10) @ [of_nat (48 + n mod 10)]"
      by (subst digits10.simps) (simp del: of_nat_add)
    have "foldl (\<lambda>a c. 10 * a + digit_value c) a (digits10 (n div 10) @ [of_nat (48 + n mod 10)])
          = 10 * (a * 10 ^ length (digits10 (n div 10)) + n div 10) + n mod 10"
      using digit_unit [of "n mod 10"] by (simp add: "1.IH" [OF False] del: of_nat_add)
    also have "\<dots> = a * 10 ^ length (digits10 (n div 10) @ [of_nat (48 + n mod 10)]) + n"
      by (simp add: algebra_simps)
    finally show ?thesis
      unfolding unfold .
  qed
qed

lemma is_digit_plain: "is_digit c \<Longrightarrow> \<not> is_js_space c \<and> c \<noteq> 0x2D \<and> c \<noteq> 0x2B"
proof -
  assume "is_digit c"
  then have range: "48 \<le> unat c" "unat c \<le> 57"
    by (simp_all add: is_digit_def word_le_nat_alt)
  have "is_js_space c \<Longrightarrow> unat c < 48 \<or> 57 < unat c"
    unfolding is_js_space_def word_le_nat_alt by auto
  moreover have "c = 0x2D \<or> c = 0x2B \<Longrightarrow> unat c < 48" by auto
  ultimately show ?thesis using range by fastforce
qed

lemma parseInt_digits10: "parseInt (digits10 n) = Some (int n)"
proof -
  obtain c cs where cs: "digits10 n = c # cs"
    using digits10_nonempty [of n] by (cases "digits10 n") auto
  have all: "\<forall>x \<in> set (digits10 n). is_digit x" using digits10_digits by blast
  then have c: "is_digit c" using cs by simp
  have tw: "takeWhile is_digit (digits10 n) = digits10 n"
    using all by (simp add: takeWhile_eq_all_conv)
  have dw: "dropWhile is_js_space (digits10 n) = digits10 n"
    using c is_digit_plain [OF c] cs by simp
  have val: "foldl (\<lambda>a c. 10 * a + digit_value c) 0 (digits10 n) = n"
    using digits10_value [of 0 n] by simp
  show ?thesis
    unfolding parseInt_def dw Let_def
    using is_digit_plain [OF c] digits10_nonempty [of n]
    by (simp add: cs [symmetric] tw val) (simp add: cs)
qed

lemma parseInt_minus_digits10: "n > 0 \<Longrightarrow> parseInt (0x2D # digits10 n) = Some (- int n)"
proof -
  assume "n > 0"
  have all: "\<forall>x \<in> set (digits10 n). is_digit x" using digits10_digits by blast
  have tw: "takeWhile is_digit (digits10 n) = digits10 n"
    using all by (simp add: takeWhile_eq_all_conv)
  have val: "foldl (\<lambda>a c. 10 * a + digit_value c) 0 (digits10 n) = n"
    using digits10_value [of 0 n] by simp
  have sp: "\<not> is_js_space 0x2D" by (simp add: is_js_space_def)
  show ?thesis
    unfolding parseInt_def Let_def
    using digits10_nonempty [of n] by (simp add: sp tw val)
qed

lemma parseInt_Number_toString: "parseInt (Number_toString i) = Some i"
proof (cases "i < 0")
  case True
  then show ?thesis
    using parseInt_minus_digits10 [of "nat (- i)"] by (simp add: Number_toString_def)
next
  case False
  then show ?thesis
    using parseInt_digits10 [of "nat i"] by (simp add: Number_toString_def)
qed

section \<open>Runs of the orchestrator\<close>

lemma loop_no_candidates:
  assumes "gemini_api w = (\<lambda>k. Responds 200 (ascii ''{}''))"
    and "\<forall>k. ticks w \<le> k \<and> k < ticks w + length emails \<longrightarrow>
              \<not> clock w k - startTime > MAX_EXECUTION_TIME_MS"
  shows "processFilteredEmails_loop emails config startTime extracted w =
     (Inr extracted,
      w\<lparr>ticks := ticks w + length emails, visited := visited w @ emails,
        gemini_requests := gemini_requests w
          @ map (\<lambda>e. buildExtractionPrompt (body_of e) (email_subject e)) emails,
        props := (if emails = [] then props w
                  else (props w)(''lastProcessedTime'' \<mapsto>
                         Number_toString (receivedDate (last emails))))\<rparr>)"
  using assms
proof (induction emails arbitrary: w)
  case Nil
  then show ?case by simp
next
  case (Cons email rest)
  let ?w1 = "w\<lparr>ticks := Suc (ticks w)\<rparr>"
  let ?w2 = "?w1\<lparr>visited := visited w @ [email],
              gemini_requests := gemini_requests w
                @ [buildExtractionPrompt (body_of email) (email_subject email)],
              props := (props w)(''lastProcessedTime'' \<mapsto> Number_toString (receivedDate email))\<rparr>"
  have now: "\<not> clock w (ticks w) - startTime > MAX_EXECUTION_TIME_MS"
    using Cons.prems(2) by simp
  have pe: "processEmail email config ?w1 = (Inr 0, ?w2)"
    using processEmail_no_candidates [of ?w1 email config] Cons.prems(1) by simp
  have step: "processFilteredEmails_loop (email # rest) config startTime extracted w =
      processFilteredEmails_loop rest config startTime extracted ?w2"
    using now by (simp add: Date_now_def pe)
  have g: "gemini_api ?w2 = (\<lambda>k. Responds 200 (ascii ''{}''))"
    using Cons.prems(1) by simp
  have t: "\<forall>k. ticks ?w2 \<le> k \<and> k < ticks ?w2 + length rest \<longrightarrow>
              \<not> clock ?w2 k - startTime > MAX_EXECUTION_TIME_MS"
    using Cons.prems(2) by simp
  show ?case
    unfolding step Cons.IH [OF g t]
    by (cases rest) (simp_all add: fun_upd_def cong: if_cong)
qed

lemma sendRunSummary_frame:
  "\<exists>reqs sl. sendRunSummary config found extracted sec st err w =
     w\<lparr>ticks := Suc (ticks w),
       pushes := pushes w @ [(lineGroupId config,
         summary_text (toLocaleString w (clock w (ticks w))) found extracted sec st err)],
       line_requests := line_requests w @ reqs, sleeps := sleeps w @ sl\<rparr>"
proof -
  let ?w1 = "w\<lparr>ticks := Suc (ticks w)\<rparr>"
  let ?s = "summary_text (toLocaleString w (clock w (ticks w))) found extracted sec st err"
  from pushMessage_frame [of "lineAccessToken config" "lineGroupId config" ?s ?w1]
  obtain r reqs sl where
    "pushMessage (lineAccessToken config) (lineGroupId config) ?s ?w1 =
       (r, ?w1\<lparr>pushes := pushes ?w1 @ [(lineGroupId config, ?s)],
              line_requests := line_requests ?w1 @ reqs, sleeps := sleeps ?w1 @ sl\<rparr>)"
    by blast
  then have "sendRunSummary config found extracted sec st err w =
     w\<lparr>ticks := Suc (ticks w), pushes := pushes w @ [(lineGroupId config, ?s)],
       line_requests := line_requests w @ reqs, sleeps := sleeps w @ sl\<rparr>"
    by (simp add: sendRunSummary_def Date_now_def)
  then show ?thesis by blast
qed

lemma fetchNewEmails_raises:
  "gmail w (length (searches w)) = SearchRaises m \<Longrightarrow>
   fetchNewEmails maxThreads since whitelist w =
     (Inl (Error m), w\<lparr>searches := searches w @ [(sender_query w since whitelist, maxThreads)]\<rparr>)"
  by (simp add: fetchNewEmails_def GmailApp_search_def Let_def)

lemma fetchNewEmails_returns:
  "gmail w (length (searches w)) = SearchReturns threads \<Longrightarrow>
   fetchNewEmails (Some n) since whitelist w =
     (Inr (collect_emails since (take (nat n) threads)),
      w\<lparr>searches := searches w @ [(sender_query w since whitelist, Some n)]\<rparr>)"
  by (simp add: fetchNewEmails_def GmailApp_search_def Let_def)

lemma processEmails_fetch_fails:
  assumes "getConfig w = Inr config" and "gmail w (length (searches w)) = SearchRaises m"
  shows "processEmails w =
     (Inl (Error m),
      w\<lparr>ticks := Suc (ticks w),
        searches := searches w @ [(sender_query w (lastProcessedTime config)
                     (senderWhitelist config), maxEmailsPerRun config)]\<rparr>)"
proof -
  let ?w1 = "w\<lparr>ticks := Suc (ticks w)\<rparr>"
  have cfg: "getConfig ?w1 = Inr config"
    using assms(1) getConfig_props [of ?w1 w] by simp
  have "fetchEmails config (clock w (ticks w)) ?w1 =
     (Inl (Error m),
      ?w1\<lparr>searches := searches ?w1 @ [(sender_query ?w1 (lastProcessedTime config)
                     (senderWhitelist config), maxEmailsPerRun config)]\<rparr>)"
    using assms(2) by (simp add: fetchEmails_def fetchNewEmails_raises)
  then show ?thesis
    by (simp add: processEmails_def Date_now_def cfg sender_query_def)
qed

lemma fetchEmails_returns:
  assumes "gmail w (length (searches w)) = SearchReturns threads"
    and "maxEmailsPerRun config = Some n"
  shows "fetchEmails config startTime w =
     (Inr (if clock w (ticks w) - startTime > MAX_EXECUTION_TIME_MS then []
           else collect_emails (lastProcessedTime config) (take (nat n) threads)),
      w\<lparr>searches := searches w @ [(sender_query w (lastProcessedTime config)
                     (senderWhitelist config), Some n)],
        ticks := Suc (ticks w)\<rparr>)"
  using assms by (simp add: fetchEmails_def fetchNewEmails_returns Date_now_def)

lemma processEmails_no_mail:
  assumes cfg: "getConfig w = Inr config"
    and mail: "gmail w (length (searches w)) = SearchReturns threads"
    and cap: "maxEmailsPerRun config = Some n"
    and none: "collect_emails (lastProcessedTime config) (take (nat n) threads) = []"
  shows "fst (processEmails w) = Inr ()
       \<and> props (snd (processEmails w)) = props w
       \<and> pushes (snd (processEmails w)) = pushes w @
           [(lineGroupId config,
             summary_text (toLocaleString w (clock w (ticks w + 3))) 0 0
               (toFixed2 w (clock w (ticks w + 2) - clock w (ticks w))) StatusSuccess None)]"
proof -
  let ?t0 = "clock w (ticks w)"
  let ?w1 = "w\<lparr>ticks := Suc (ticks w)\<rparr>"
  define w2 where "w2 = snd (fetchEmails config ?t0 ?w1)"
  have cfg1: "getConfig ?w1 = Inr config"
    using cfg getConfig_props [of ?w1 w] by simp
  have fe: "fetchEmails config ?t0 ?w1 = (Inr [], w2)"
    unfolding w2_def
    using fetchEmails_returns [of ?w1 threads config n ?t0] mail cap none by simp
  have w2: "ticks w2 = ticks w + 2" "clock w2 = clock w" "props w2 = props w"
    "pushes w2 = pushes w" "toFixed2 w2 = toFixed2 w" "toLocaleString w2 = toLocaleString w"
    unfolding w2_def
    using fetchEmails_returns [of ?w1 threads config n ?t0] mail cap by simp_all
  let ?w3 = "w2\<lparr>ticks := Suc (ticks w2)\<rparr>"
  let ?sec = "toFixed2 w (clock w (ticks w + 2) - ?t0)"
  obtain reqs sl where sum: "sendRunSummary config 0 0 ?sec StatusSuccess None ?w3 =
     ?w3\<lparr>ticks := Suc (ticks ?w3),
       pushes := pushes ?w3 @ [(lineGroupId config,
         summary_text (toLocaleString ?w3 (clock ?w3 (ticks ?w3))) 0 0 ?sec StatusSuccess None)],
       line_requests := line_requests ?w3 @ reqs, sleeps := sleeps ?w3 @ sl\<rparr>"
    using sendRunSummary_frame [of config 0 0 ?sec StatusSuccess None ?w3] by blast
  have tried: "processEmails_try config [] ?t0 w2 =
      (Inr (), sendRunSummary config 0 0 ?sec StatusSuccess None ?w3)"
    by (simp add: processEmails_try_def Date_now_def w2)
  have run: "processEmails w = (Inr (), sendRunSummary config 0 0 ?sec StatusSuccess None ?w3)"
    by (simp add: processEmails_def Date_now_def cfg1 fe tried)
  show ?thesis
    unfolding run sum by (simp add: w2 eval_nat_numeral)
qed

lemma processEmails_no_candidates:
  assumes cfg: "getConfig w = Inr config"
    and mail: "gmail w (length (searches w)) = SearchReturns threads"
    and cap: "maxEmailsPerRun config = Some n"
    and gem: "gemini_api w = (\<lambda>k. Responds 200 (ascii ''{}''))"
    and time: "\<forall>k. ticks w < k \<and> k \<le> Suc (ticks w) + length emails \<longrightarrow>
                 \<not> clock w k - clock w (ticks w) > MAX_EXECUTION_TIME_MS"
    and emails: "emails = collect_emails (lastProcessedTime config) (take (nat n) threads)"
  shows "fst (processEmails w) = Inr ()
    \<and> visited (snd (processEmails w)) = visited w @ emails
    \<and> props (snd (processEmails w)) =
           (if emails = [] then props w
            else (props w)(''lastProcessedTime'' \<mapsto> Number_toString (receivedDate (last emails))))
    \<and> gmail (snd (processEmails w)) = gmail w
    \<and> length (searches (snd (processEmails w))) = Suc (length (searches w))
    \<and> gemini_api (snd (processEmails w)) = gemini_api w
    \<and> clock (snd (processEmails w)) = clock w
    \<and> ticks (snd (processEmails w)) = ticks w + length emails + 4
    \<and> length (pushes (snd (processEmails w))) = Suc (length (pushes w))"
proof -
  let ?t0 = "clock w (ticks w)"
  let ?w1 = "w\<lparr>ticks := Suc (ticks w)\<rparr>"
  define w2 where "w2 = snd (fetchEmails config ?t0 ?w1)"
  have cfg1: "getConfig ?w1 = Inr config"
    using cfg getConfig_props [of ?w1 w] by simp
  have t1: "\<not> clock w (Suc (ticks w)) - ?t0 > MAX_EXECUTION_TIME_MS"
    using time by simp
  have fe: "fetchEmails config ?t0 ?w1 = (Inr emails, w2)"
    unfolding w2_def
    using fetchEmails_returns [of ?w1 threads config n ?t0] mail cap t1 emails by simp
  have w2: "ticks w2 = ticks w + 2" "clock w2 = clock w" "props w2 = props w"
    "pushes w2 = pushes w" "visited w2 = visited w" "gmail w2 = gmail w"
    "length (searches w2) = Suc (length (searches w))" "gemini_api w2 = gemini_api w"
    unfolding w2_def
    using fetchEmails_returns [of ?w1 threads config n ?t0] mail cap by simp_all
  define w3 where "w3 = snd (processFilteredEmails emails config ?t0 w2)"
  have loop': "processFilteredEmails emails config ?t0 w2 =
     (Inr 0,
      w2\<lparr>ticks := ticks w2 + length emails, visited := visited w2 @ emails,
        gemini_requests := gemini_requests w2
          @ map (\<lambda>e. buildExtractionPrompt (body_of e) (email_subject e)) emails,
        props := (if emails = [] then props w2
                  else (props w2)(''lastProcessedTime'' \<mapsto>
                         Number_toString (receivedDate (last emails))))\<rparr>)"
    unfolding processFilteredEmails_def
    by (rule loop_no_candidates) (use gem time in \<open>auto simp: w2\<close>)
  have loop: "processFilteredEmails emails config ?t0 w2 = (Inr 0, w3)"
    unfolding w3_def loop' by simp
  have w3: "ticks w3 = ticks w + length emails + 2" "clock w3 = clock w"
    "props w3 = (if emails = [] then props w
            else (props w)(''lastProcessedTime'' \<mapsto> Number_toString (receivedDate (last emails))))"
    "pushes w3 = pushes w" "visited w3 = visited w @ emails" "gmail w3 = gmail w"
    "length (searches w3) = Suc (length (searches w))" "gemini_api w3 = gemini_api w"
    unfolding w3_def loop' by (simp_all add: w2)
  define wa where "wa = (if emails = [] then w2 else w3)"
  have wa: "ticks wa = ticks w + length emails + 2" "clock wa = clock w"
    "props wa = (if emails = [] then props w
            else (props w)(''lastProcessedTime'' \<mapsto> Number_toString (receivedDate (last emails))))"
    "pushes wa = pushes w" "visited wa = visited w @ emails" "gmail wa = gmail w"
    "length (searches wa) = Suc (length (searches w))" "gemini_api wa = gemini_api w"
    unfolding wa_def by (simp_all add: w2 w3)
  let ?w4 = "wa\<lparr>ticks := Suc (ticks wa)\<rparr>"
  let ?sec = "toFixed2 w2 (clock wa (ticks wa) - ?t0)"
  let ?found = "length emails"
  obtain reqs sl where sum: "sendRunSummary config ?found 0 ?sec StatusSuccess None ?w4 =
     ?w4\<lparr>ticks := Suc (ticks ?w4),
       pushes := pushes ?w4 @ [(lineGroupId config,
         summary_text (toLocaleString ?w4 (clock ?w4 (ticks ?w4))) ?found 0 ?sec StatusSuccess None)],
       line_requests := line_requests ?w4 @ reqs, sleeps := sleeps ?w4 @ sl\<rparr>"
    using sendRunSummary_frame [of config ?found 0 ?sec StatusSuccess None ?w4] by blast
  have tried: "processEmails_try config emails ?t0 w2 =
      (Inr (), sendRunSummary config ?found 0 ?sec StatusSuccess None ?w4)"
  proof (cases "emails = []")
    case True
    then show ?thesis by (simp add: processEmails_try_def Date_now_def wa_def)
  next
    case False
    then show ?thesis
      using loop by (simp add: processEmails_try_def Date_now_def wa_def)
  qed
  have run: "processEmails w = (Inr (), sendRunSummary config ?found 0 ?sec StatusSuccess None ?w4)"
    by (simp add: processEmails_def Date_now_def cfg1 fe tried)
  show ?thesis
    unfolding run sum by (simp add: wa)
qed

section \<open>The scenarios, evaluated\<close>

lemma configured_values:
  "parseInt (ascii ''1000'') = Some 1000" "parseInt (ascii ''2'') = Some 2"
  "filter (\<lambda>s. s \<noteq> []) (map js_trim (split_on 0x2C (ascii ''a@x.com''))) = [ascii ''a@x.com'']"
  by code_simp+

lemma getConfig_configured: "props w = configured_props \<Longrightarrow> getConfig w = Inr configured"
proof -
  have nonempty: "ascii ''token'' \<noteq> []" "ascii ''C1'' \<noteq> []" "ascii ''key'' \<noteq> []"
    "ascii ''a@x.com'' \<noteq> []" "ascii ''1000'' \<noteq> []" "ascii ''2'' \<noteq> []"
    by (simp_all add: ascii_def)
  assume "props w = configured_props"
  then show ?thesis
    unfolding getConfig_def
    by (simp add: Let_def configured_props_def configured_def missing_def configured_values
          nonempty)
qed


lemma Number_toString_nonempty: "Number_toString t \<noteq> []"
  by (simp add: Number_toString_def digits10_nonempty)

text \<open>The watermark one run writes is the watermark the next run reads.\<close>

lemma getConfig_after_update:
  assumes "getConfig w = Inr config"
    and "props w' = (props w)(''lastProcessedTime'' \<mapsto> Number_toString t)"
    and "\<bar>t\<bar> \<le> 8640000000000000"
  shows "getConfig w' = Inr (config\<lparr>lastProcessedTime := t\<rparr>)"
proof -
  have keys: "props w' ''lineAccessToken'' = props w ''lineAccessToken''"
    "props w' ''lineGroupId'' = props w ''lineGroupId''"
    "props w' ''geminiApiKey'' = props w ''geminiApiKey''"
    "props w' ''senderWhitelist'' = props w ''senderWhitelist''"
    "props w' ''maxEmailsPerRun'' = props w ''maxEmailsPerRun''"
    "props w' ''lastProcessedTime'' = Some (Number_toString t)"
    by (simp_all add: assms(2))
  have stored: "\<not> missing (Some (Number_toString t))"
    by (simp add: missing_def Number_toString_nonempty)
  from assms(1) assms(3) show ?thesis
    unfolding getConfig_def keys Let_def
    by (auto simp: stored parseInt_Number_toString split: if_splits option.splits)
qed

lemma inbox_since_1000:
  "map receivedDate (collect_emails 1000 (take 2 inbox)) = [3000, 2000, 2500]"
  by (simp add: collect_emails_def inbox_def thread_of_def mail_def toEmailMessage_def)

lemma inbox_since_2500:
  "map receivedDate (collect_emails 2500 (take 2 inbox)) = [3000]"
  by (simp add: collect_emails_def inbox_def thread_of_def mail_def toEmailMessage_def)

lemma newest_first_fields:
  "props newest_first_world = configured_props"
  "gmail newest_first_world = (\<lambda>n. SearchReturns inbox)"
  "gemini_api newest_first_world = (\<lambda>k. Responds 200 (ascii ''{}''))"
  "clock newest_first_world = (\<lambda>n. int n)"
  "ticks newest_first_world = 0" "visited newest_first_world = []"
  "searches newest_first_world = []" "pushes newest_first_world = []"
  by (simp_all add: newest_first_world_def idle_world_def)

lemma first_run:
  "fst (processEmails newest_first_world) = Inr ()
   \<and> map receivedDate (visited (snd (processEmails newest_first_world))) = [3000, 2000, 2500]
   \<and> props (snd (processEmails newest_first_world))
       = configured_props(''lastProcessedTime'' \<mapsto> Number_toString 2500)
   \<and> gmail (snd (processEmails newest_first_world)) = (\<lambda>n. SearchReturns inbox)
   \<and> gemini_api (snd (processEmails newest_first_world)) = (\<lambda>k. Responds 200 (ascii ''{}''))
   \<and> clock (snd (processEmails newest_first_world)) = (\<lambda>n. int n)
   \<and> ticks (snd (processEmails newest_first_world)) = 7"
proof -
  let ?emails = "collect_emails 1000 (take 2 inbox)"
  have len: "length ?emails = 3" and lst: "receivedDate (last ?emails) = 2500"
    and ne: "?emails \<noteq> []"
    by (simp_all add: collect_emails_def inbox_def thread_of_def mail_def toEmailMessage_def)
  have cfg: "getConfig newest_first_world = Inr configured"
    by (rule getConfig_configured) (rule newest_first_fields)
  have r: "fst (processEmails newest_first_world) = Inr ()
    \<and> visited (snd (processEmails newest_first_world)) = visited newest_first_world @ ?emails
    \<and> props (snd (processEmails newest_first_world)) =
           (if ?emails = [] then props newest_first_world
            else (props newest_first_world)(''lastProcessedTime'' \<mapsto> Number_toString (receivedDate (last ?emails))))
    \<and> gmail (snd (processEmails newest_first_world)) = gmail newest_first_world
    \<and> length (searches (snd (processEmails newest_first_world))) = Suc (length (searches newest_first_world))
    \<and> gemini_api (snd (processEmails newest_first_world)) = gemini_api newest_first_world
    \<and> clock (snd (processEmails newest_first_world)) = clock newest_first_world
    \<and> ticks (snd (processEmails newest_first_world)) = ticks newest_first_world + length ?emails + 4
    \<and> length (pushes (snd (processEmails newest_first_world))) = Suc (length (pushes newest_first_world))"
    by (rule processEmails_no_candidates [OF cfg, where threads = inbox and n = 2])
       (simp_all add: newest_first_fields configured_def MAX_EXECUTION_TIME_MS_def len)
  show ?thesis
    using r inbox_since_1000 by (simp add: newest_first_fields len lst ne)
qed


lemma second_run:
  "map receivedDate (visited (snd (processEmails (snd (processEmails newest_first_world)))))
     = [3000, 2000, 2500, 3000]"
proof -
  define w1 where "w1 = snd (processEmails newest_first_world)"
  have w1: "props w1 = configured_props(''lastProcessedTime'' \<mapsto> Number_toString 2500)"
    "gmail w1 = (\<lambda>n. SearchReturns inbox)"
    "gemini_api w1 = (\<lambda>k. Responds 200 (ascii ''{}''))"
    "clock w1 = (\<lambda>n. int n)" "ticks w1 = 7"
    "map receivedDate (visited w1) = [3000, 2000, 2500]"
    unfolding w1_def using first_run by simp_all
  let ?emails = "collect_emails 2500 (take 2 inbox)"
  have len: "length ?emails = 1"
    by (simp add: collect_emails_def inbox_def thread_of_def mail_def toEmailMessage_def)
  have cfg0: "getConfig newest_first_world = Inr configured"
    by (rule getConfig_configured) (rule newest_first_fields)
  have cfg: "getConfig w1 = Inr (configured\<lparr>lastProcessedTime := 2500\<rparr>)"
    by (rule getConfig_after_update [OF cfg0]) (simp_all add: w1 newest_first_fields)
  have r: "fst (processEmails w1) = Inr ()
    \<and> visited (snd (processEmails w1)) = visited w1 @ ?emails
    \<and> props (snd (processEmails w1)) =
           (if ?emails = [] then props w1
            else (props w1)(''lastProcessedTime'' \<mapsto> Number_toString (receivedDate (last ?emails))))
    \<and> gmail (snd (processEmails w1)) = gmail w1
    \<and> length (searches (snd (processEmails w1))) = Suc (length (searches w1))
    \<and> gemini_api (snd (processEmails w1)) = gemini_api w1
    \<and> clock (snd (processEmails w1)) = clock w1
    \<and> ticks (snd (processEmails w1)) = ticks w1 + length ?emails + 4
    \<and> length (pushes (snd (processEmails w1))) = Suc (length (pushes w1))"
    by (rule processEmails_no_candidates [OF cfg, where threads = inbox and n = 2])
       (simp_all add: w1 configured_def MAX_EXECUTION_TIME_MS_def len)
  then have "map receivedDate (visited (snd (processEmails w1)))
      = map receivedDate (visited w1) @ map receivedDate ?emails"
    by simp
  then show ?thesis
    unfolding w1_def [symmetric] by (simp add: w1 inbox_since_2500)
qed

lemma decimal_2500: "Number_toString 2500 = ascii ''2500''"
  by code_simp

text \<open>
  Claim C4 at a mailbox that lists the newest thread first. The first run visits the
  messages received at 3000, 2000 and 2500 in that order and sets the watermark to each
  one's date in turn, so it ends at 2500; the second run, on the same mailbox, fetches
  everything after 2500 and visits the message received at 3000 again.
\<close>

theorem visited_message_is_reprocessed:
  "map receivedDate (visited (snd (processEmails newest_first_world))) = [3000, 2000, 2500]
   \<and> props (snd (processEmails newest_first_world)) ''lastProcessedTime'' = Some (ascii ''2500'')
   \<and> map receivedDate (visited (snd (processEmails (snd (processEmails newest_first_world)))))
       = [3000, 2000, 2500, 3000]"
  using first_run second_run by (simp add: decimal_2500)

text \<open>
  Claim C6 at the same mailbox with \<open>maxEmailsPerRun = 2\<close>: the search is capped at two
  threads, and the run visits their three messages, in the order the mailbox returned
  them (3000, 2000, 2500), not in ascending order of their dates.
\<close>

theorem visits_follow_the_mailbox_order:
  "getConfig newest_first_world = Inr configured
   \<and> maxEmailsPerRun configured = Some 2
   \<and> map receivedDate (visited (snd (processEmails newest_first_world))) = [3000, 2000, 2500]"
  using first_run getConfig_configured [OF newest_first_fields(1)]
  by (simp add: configured_def)

text \<open>
  Claim C8 at a mailbox whose search raises: the configuration loads, the exception of
  \<open>fetchEmails\<close> leaves \<open>processEmails\<close> before its \<open>try\<close> block is entered, and no
  message at all is pushed, so the run ends without a summary.
\<close>

theorem fetch_failure_sends_no_summary:
  "getConfig mailbox_down_world = Inr configured
   \<and> fst (processEmails mailbox_down_world) = Inl (Error (ascii ''Service unavailable''))
   \<and> pushes (snd (processEmails mailbox_down_world)) = []
   \<and> line_requests (snd (processEmails mailbox_down_world)) = []"
proof -
  have cfg: "getConfig mailbox_down_world = Inr configured"
    by (rule getConfig_configured) (simp add: mailbox_down_world_def)
  have "gmail mailbox_down_world (length (searches mailbox_down_world))
          = SearchRaises (ascii ''Service unavailable'')"
    by (simp add: mailbox_down_world_def)
  from processEmails_fetch_fails [OF cfg this] cfg show ?thesis
    by (simp add: mailbox_down_world_def idle_world_def)
qed

text \<open>
  Claim C9 at the candidate text \<open>[{"description": ""}]\<close>: the Gemini parser copies the
  field without looking at it and returns an item whose description is the empty string.
\<close>

theorem gemini_item_with_empty_description:
  \<open>parseTodosFromResponse (JStr (ascii ''[{"description": ""}]''))
      (ascii ''m1'') (ascii ''a@x.com'') (ascii ''Report'') =
     [\<lparr>description = JStr [], priority = Undefined, sourceEmailId = ascii ''m1'',
       sourceSender = ascii ''a@x.com'', sourceSubject = ascii ''Report'',
       matchedPattern = AI_EXTRACTED\<rparr>]\<close>
  by code_simp

section \<open>Extraction failures\<close>







lemma parseTodos_unparseable:
  "JSON_parse (unfence (js_trim candidate)) = None \<Longrightarrow>
   parseTodosFromResponse (JStr candidate) emailId senderEmail emailSubject = []"
  by (simp add: parseTodosFromResponse_def parseTodos_try_def)

lemma parseTodos_not_an_array:
  "JSON_parse (unfence (js_trim candidate)) = Some v \<Longrightarrow> \<forall>xs. v \<noteq> JArr xs \<Longrightarrow>
   parseTodosFromResponse (JStr candidate) emailId senderEmail emailSubject = []"
  by (cases v) (simp_all add: parseTodosFromResponse_def parseTodos_try_def)

lemma extractTodos_after_call:
  "fst (callGeminiAPI apiKey (buildExtractionPrompt emailBody emailSubject) w) = Inr response \<Longrightarrow>
   fst (extractTodos apiKey emailBody emailId senderEmail emailSubject w) =
     Inr (parseTodosFromResponse response emailId senderEmail emailSubject)"
  by (cases "callGeminiAPI apiKey (buildExtractionPrompt emailBody emailSubject) w")
     (simp add: extractTodos_def)

text \<open>
  Claim C3, as amended. \<open>extractTodos\<close> raises when the upstream call fails in
  transport or answers with a status other than 200. Once \<open>callGeminiAPI\<close> has returned,
  it returns what \<open>parseTodosFromResponse\<close> returns, and that is the empty list for every
  candidate text that is not JSON (the empty text included) or is JSON but not an array.
\<close>

theorem extract_raises_or_degrades:
  "(gemini_api w (length (gemini_requests w)) = Raises m \<longrightarrow>
      fst (extractTodos apiKey emailBody emailId senderEmail emailSubject w) = Inl (Error m))
   \<and> (gemini_api w (length (gemini_requests w)) = Responds st b \<and> st \<noteq> 200 \<longrightarrow>
      fst (extractTodos apiKey emailBody emailId senderEmail emailSubject w) =
        Inl (Error (ascii ''Gemini API error: '' @ Number_toString (int st))))
   \<and> (fst (callGeminiAPI apiKey (buildExtractionPrompt emailBody emailSubject) w) = Inr response \<longrightarrow>
      fst (extractTodos apiKey emailBody emailId senderEmail emailSubject w) =
        Inr (parseTodosFromResponse response emailId senderEmail emailSubject))
   \<and> (JSON_parse (unfence (js_trim candidate)) = None \<longrightarrow>
      parseTodosFromResponse (JStr candidate) emailId senderEmail emailSubject = [])
   \<and> (JSON_parse (unfence (js_trim candidate)) = Some v \<and> (\<forall>xs. v \<noteq> JArr xs) \<longrightarrow>
      parseTodosFromResponse (JStr candidate) emailId senderEmail emailSubject = [])"
proof (intro conjI impI)
  assume "gemini_api w (length (gemini_requests w)) = Raises m"
  then show "fst (extractTodos apiKey emailBody emailId senderEmail emailSubject w) = Inl (Error m)"
    by (rule extractTodos_raises)
next
  assume "gemini_api w (length (gemini_requests w)) = Responds st b \<and> st \<noteq> 200"
  then show "fst (extractTodos apiKey emailBody emailId senderEmail emailSubject w) =
        Inl (Error (ascii ''Gemini API error: '' @ Number_toString (int st)))"
    by (simp add: extractTodos_status)
next
  assume "fst (callGeminiAPI apiKey (buildExtractionPrompt emailBody emailSubject) w) = Inr response"
  then show "fst (extractTodos apiKey emailBody emailId senderEmail emailSubject w) =
        Inr (parseTodosFromResponse response emailId senderEmail emailSubject)"
    by (rule extractTodos_after_call)
next
  assume "JSON_parse (unfence (js_trim candidate)) = None"
  then show "parseTodosFromResponse (JStr candidate) emailId senderEmail emailSubject = []"
    by (rule parseTodos_unparseable)
next
  assume "JSON_parse (unfence (js_trim candidate)) = Some v \<and> (\<forall>xs. v \<noteq> JArr xs)"
  then show "parseTodosFromResponse (JStr candidate) emailId senderEmail emailSubject = []"
    using parseTodos_not_an_array by blast
qed

lemma unparseable_payloads:
  "JSON_parse (unfence (js_trim (ascii ''not json''))) = None"
  "JSON_parse (unfence (js_trim [])) = None"
  \<open>JSON_parse (unfence (js_trim (ascii ''{"todos": []}''))) = Some (JObj [(ascii ''todos'', JArr [])])\<close>
  by code_simp+

lemma decimal_500: "Number_toString 500 = ascii ''500''"
  by code_simp

theorem extract_raises_or_degrades_witness:
  \<open>fst (extractTodos (ascii ''key'') (ascii ''1. Send the report'') (ascii ''m1'')
          (ascii ''a@x.com'') (ascii ''Report'') gemini_unreachable_world)
     = Inl (Error (ascii ''DNS error''))
   \<and> fst (extractTodos (ascii ''key'') (ascii ''1. Send the report'') (ascii ''m1'')
          (ascii ''a@x.com'') (ascii ''Report'') gemini_down_world)
     = Inl (Error (ascii ''Gemini API error: '' @ ascii ''500''))
   \<and> parseTodosFromResponse (JStr (ascii ''not json'')) (ascii ''m1'') (ascii ''a@x.com'') (ascii ''Report'') = []
   \<and> parseTodosFromResponse (JStr []) (ascii ''m1'') (ascii ''a@x.com'') (ascii ''Report'') = []
   \<and> parseTodosFromResponse (JStr (ascii ''{"todos": []}'')) (ascii ''m1'') (ascii ''a@x.com'') (ascii ''Report'') = []\<close>
proof -
  have a: "gemini_api gemini_unreachable_world (length (gemini_requests gemini_unreachable_world))
      = Raises (ascii ''DNS error'')"
    by (simp add: gemini_unreachable_world_def idle_world_def)
  have b: "gemini_api gemini_down_world (length (gemini_requests gemini_down_world))
      = Responds 500 (ascii ''Internal error'') \<and> (500::nat) \<noteq> 200"
    by (simp add: gemini_down_world_def idle_world_def)
  have c: \<open>\<forall>xs. JObj [(ascii ''todos'', JArr [])] \<noteq> JArr xs\<close> by simp
  note t = extract_raises_or_degrades
  from t [of gemini_unreachable_world "ascii ''DNS error''"] a
  have 1: "fst (extractTodos (ascii ''key'') (ascii ''1. Send the report'') (ascii ''m1'')
          (ascii ''a@x.com'') (ascii ''Report'') gemini_unreachable_world)
     = Inl (Error (ascii ''DNS error''))"
    by blast
  from t [of gemini_down_world _ _ _ _ _ _ 500 "ascii ''Internal error''"] b
  have 2: "fst (extractTodos (ascii ''key'') (ascii ''1. Send the report'') (ascii ''m1'')
          (ascii ''a@x.com'') (ascii ''Report'') gemini_down_world)
     = Inl (Error (ascii ''Gemini API error: '' @ ascii ''500''))"
    by (simp add: decimal_500)
  from t [where candidate = "ascii ''not json''"] unparseable_payloads(1)
  have 3: "parseTodosFromResponse (JStr (ascii ''not json'')) (ascii ''m1'') (ascii ''a@x.com'') (ascii ''Report'') = []"
    by blast
  from t [where candidate = "[]"] unparseable_payloads(2)
  have 4: "parseTodosFromResponse (JStr []) (ascii ''m1'') (ascii ''a@x.com'') (ascii ''Report'') = []"
    by blast
  from t [where candidate = \<open>ascii ''{"todos": []}''\<close>] unparseable_payloads(3) c
  have 5: \<open>parseTodosFromResponse (JStr (ascii ''{"todos": []}'')) (ascii ''m1'') (ascii ''a@x.com'') (ascii ''Report'') = []\<close>
    by blast
  from 1 2 3 4 5 show ?thesis by blast
qed

text \<open>
  Claim C3 as stated fails: when the endpoint answers 500, \<open>extractTodos\<close> does not
  return the empty list, it raises.
\<close>

theorem extract_raises_on_server_error_counterexample:
  "fst (extractTodos (ascii ''key'') (ascii ''1. Send the report'') (ascii ''m1'')
          (ascii ''a@x.com'') (ascii ''Report'') gemini_down_world)
     = Inl (Error (ascii ''Gemini API error: 500''))"
proof -
  have "gemini_api gemini_down_world (length (gemini_requests gemini_down_world))
      = Responds 500 (ascii ''Internal error'')"
    by (simp add: gemini_down_world_def idle_world_def)
  from extractTodos_status [OF this] show ?thesis
    by (simp add: decimal_500 ascii_def)
qed

section \<open>Dispatch failures\<close>












end
